theory Spec2Isabelle
  imports Complex_Main "HOL-Library.Multiset" "HOL-Library.Sublist"
begin

section \<open>Map to Poster: the data pipeline of \<^verbatim>\<open>script.js\<close>\<close>

text \<open>
  A shallow embedding of the parts of \<^verbatim>\<open>script.js\<close> that decide the specification's
  claims: \<^verbatim>\<open>parseOSMData\<close> (the geometry classifier), \<^verbatim>\<open>fetchOSMData\<close> (the
  endpoint failover), \<^verbatim>\<open>loadTheme\<close>, \<^verbatim>\<open>createProjection\<close> and the coordinate line of
  \<^verbatim>\<open>drawTypography\<close>.

  JavaScript objects become records, \<^verbatim>\<open>undefined\<close> becomes \<open>None\<close>, a thrown error
  becomes \<open>Inl\<close>, \<^verbatim>\<open>forEach\<close> and \<^verbatim>\<open>for \<dots> of\<close> become recursion over the list,
  and the network is a parameter that is threaded through the calls.
\<close>

subsection \<open>JavaScript values\<close>

text \<open>An \<^verbatim>\<open>Error\<close> object: its constructor name and its \<^verbatim>\<open>message\<close>.\<close>

datatype js_error = JsError (err_name: string) (message: string)

text \<open>
  Truthiness of a value that is a string or \<^verbatim>\<open>undefined\<close> (a tag lookup
  \<^verbatim>\<open>el.tags.highway\<close>): \<^verbatim>\<open>undefined\<close> and the empty string are falsy.
\<close>

definition truthy :: "string option \<Rightarrow> bool" where
  "truthy v = (case v of None \<Rightarrow> False | Some s \<Rightarrow> s \<noteq> [])"

text \<open>\<^verbatim>\<open>xs[i]\<close>: \<^verbatim>\<open>undefined\<close> outside the array, also at index \<open>-1\<close>.\<close>

definition elemAt :: "'a list \<Rightarrow> int \<Rightarrow> 'a option" where
  "elemAt xs i = (if 0 \<le> i \<and> i < int (length xs) then Some (xs ! nat i) else None)"

text \<open>\<^verbatim>\<open>xs.forEach(f)\<close> where \<open>f\<close> updates the variables it closes over: state passing.\<close>

primrec forEach :: "('a \<Rightarrow> 's \<Rightarrow> 's) \<Rightarrow> 'a list \<Rightarrow> 's \<Rightarrow> 's" where
  "forEach f [] s = s"
| "forEach f (x # xs) s = forEach f xs (f x s)"

text \<open>\<^verbatim>\<open>xs.indexOf(x)\<close>: the first index of \<open>x\<close>, or \<open>-1\<close>.\<close>

primrec indexOfFrom :: "'a list \<Rightarrow> 'a \<Rightarrow> int \<Rightarrow> int" where
  "indexOfFrom [] x i = -1"
| "indexOfFrom (y # ys) x i = (if y = x then i else indexOfFrom ys x (i + 1))"

definition indexOf :: "'a list \<Rightarrow> 'a \<Rightarrow> int" where
  "indexOf xs x = indexOfFrom xs x 0"

text \<open>
  \<^verbatim>\<open>xs.sort(cmp)\<close>. ECMAScript requires the sort to be stable, and for a comparator
  that is a consistent ordering the stable sorted arrangement is unique; it is computed
  here by insertion, an element going before the first one it does not compare
  greater than.
\<close>

primrec insertBy :: "('a \<Rightarrow> 'a \<Rightarrow> int) \<Rightarrow> 'a \<Rightarrow> 'a list \<Rightarrow> 'a list" where
  "insertBy cmp x [] = [x]"
| "insertBy cmp x (y # ys) = (if cmp x y \<le> 0 then x # y # ys else y # insertBy cmp x ys)"

definition array_sort :: "('a \<Rightarrow> 'a \<Rightarrow> int) \<Rightarrow> 'a list \<Rightarrow> 'a list" where
  "array_sort cmp xs = foldr (insertBy cmp) xs []"

subsection \<open>The element graph and the classified region\<close>

text \<open>
  An entry of \<^verbatim>\<open>data.elements\<close>. \<open>el_nodes\<close> and \<open>el_tags\<close> are \<open>None\<close> when the
  object has no such property; \<open>el_lat\<close> and \<open>el_lon\<close> are read for nodes only, and the
  classifier copies them without computing on them.
\<close>

record element =
  el_type :: string
  el_id :: int
  el_lat :: real
  el_lon :: real
  el_nodes :: "int list option"
  el_tags :: "(string \<rightharpoonup> string) option"

text \<open>The parsed response body; \<open>elements\<close> is \<open>None\<close> when the body has no such array.\<close>

record osm_data =
  elements :: "element list option"

text \<open>\<^verbatim>\<open>{ lat, lon }\<close>, an entry of the node table.\<close>

record coord =
  coord_lat :: real
  coord_lon :: real

text \<open>\<^verbatim>\<open>{ coords }\<close> for water and parks, \<^verbatim>\<open>{ type, coords }\<close> for roads.\<close>

record shape =
  coords :: "coord list"

record road = shape +
  road_type :: string

record region =
  roads :: "road list"
  waterWays :: "shape list"
  waterPolygons :: "shape list"
  parks :: "shape list"
  nodes :: "int \<rightharpoonup> coord"

subsection \<open>\<^verbatim>\<open>parseOSMData\<close>\<close>

text \<open>The body of the first \<^verbatim>\<open>forEach\<close> (lines 191 to 195).\<close>

definition collectNode :: "element \<Rightarrow> (int \<rightharpoonup> coord) \<Rightarrow> (int \<rightharpoonup> coord)" where
  "collectNode el ns =
     (if el_type el = ''node'' then ns(el_id el \<mapsto> \<lparr>coord_lat = el_lat el, coord_lon = el_lon el\<rparr>)
      else ns)"

text \<open>
  \<^verbatim>\<open>el.nodes.map(nodeId => nodes[nodeId]).filter(n => n !== undefined)\<close>
  (lines 205 to 207).
\<close>

definition resolve :: "(int \<rightharpoonup> coord) \<Rightarrow> int list \<Rightarrow> coord list" where
  "resolve ns ids = map the (filter (\<lambda>n. n \<noteq> None) (map ns ids))"

text \<open>\<^verbatim>\<open>el.nodes[0] === el.nodes[el.nodes.length - 1]\<close> (lines 219 and 225).\<close>

definition closedRing :: "int list \<Rightarrow> bool" where
  "closedRing ids = (elemAt ids 0 = elemAt ids (int (length ids) - 1))"

text \<open>
  The body of the second \<^verbatim>\<open>forEach\<close> (lines 203 to 229); \<^verbatim>\<open>push\<close> appends. The state
  is the four arrays, with the finished node table beside them.
\<close>

definition classifyElement :: "element \<Rightarrow> region \<Rightarrow> region" where
  "classifyElement el s =
     (if el_type el = ''way'' \<and> el_nodes el \<noteq> None \<and> el_tags el \<noteq> None then
        (let ids = the (el_nodes el);
             tags = the (el_tags el);
             cs = resolve (nodes s) ids
         in if length cs < 2 then s
            else if truthy (tags ''highway'') then
              s\<lparr>roads := roads s @ [\<lparr>coords = cs, road_type = the (tags ''highway'')\<rparr>]\<rparr>
            else if tags ''natural'' = Some ''water'' \<or> truthy (tags ''waterway'') then
              (if closedRing ids
               then s\<lparr>waterPolygons := waterPolygons s @ [\<lparr>coords = cs\<rparr>]\<rparr>
               else s\<lparr>waterWays := waterWays s @ [\<lparr>coords = cs\<rparr>]\<rparr>)
            else if tags ''leisure'' = Some ''park'' \<or> tags ''landuse'' = Some ''grass'' then
              (if closedRing ids then s\<lparr>parks := parks s @ [\<lparr>coords = cs\<rparr>]\<rparr> else s)
            else s)
      else s)"

definition roadOrder :: "string list" where
  "roadOrder = [''service'', ''living_street'', ''unclassified'', ''residential'',
                ''tertiary_link'', ''tertiary'', ''secondary_link'', ''secondary'',
                ''primary_link'', ''primary'', ''trunk_link'', ''trunk'',
                ''motorway_link'', ''motorway'']"

text \<open>The comparator of line 239.\<close>

definition roadCompare :: "road \<Rightarrow> road \<Rightarrow> int" where
  "roadCompare a b = indexOf roadOrder (road_type a) - indexOf roadOrder (road_type b)"

text \<open>
  \<^verbatim>\<open>parseOSMData(data)\<close>. \<^verbatim>\<open>data.elements.forEach\<close> throws a \<^verbatim>\<open>TypeError\<close> when
  \<^verbatim>\<open>data.elements\<close> is \<^verbatim>\<open>undefined\<close>; the wording of its message is the engine's.
\<close>

definition parseOSMData :: "osm_data \<Rightarrow> js_error + region" where
  "parseOSMData data =
     (case elements data of
        None \<Rightarrow> Inl (JsError ''TypeError'' ''data.elements is undefined'')
      | Some els \<Rightarrow>
          (let ns = forEach collectNode els Map.empty;
               s = forEach classifyElement els
                     \<lparr>roads = [], waterWays = [], waterPolygons = [], parks = [], nodes = ns\<rparr>
           in Inr (s\<lparr>roads := array_sort roadCompare (roads s)\<rparr>)))"

text \<open>
  The accumulator the second loop starts from, and what one element adds to it: the
  loop's result is the concatenation of these contributions (\<open>loop_roads\<close> and its
  siblings below).
\<close>

definition emptyRegion :: "(int \<rightharpoonup> coord) \<Rightarrow> region" where
  "emptyRegion ns = \<lparr>roads = [], waterWays = [], waterPolygons = [], parks = [], nodes = ns\<rparr>"

definition contribution :: "(int \<rightharpoonup> coord) \<Rightarrow> element \<Rightarrow> region" where
  "contribution ns el = classifyElement el (emptyRegion ns)"

subsection \<open>The network, the console and the global state\<close>

text \<open>
  What \<^verbatim>\<open>await fetch(url, init)\<close> resolves to: the status and what
  \<^verbatim>\<open>await response.json()\<close> gives (\<open>Inl\<close> when it rejects, the body not being JSON).
  \<^verbatim>\<open>response.ok\<close> is a status from 200 to 299.
\<close>

record 'a response =
  status :: nat
  json :: "js_error + 'a"

definition ok :: "'a response \<Rightarrow> bool" where
  "ok response = (200 \<le> status response \<and> status response \<le> 299)"

datatype console_line = Warn string string | Error string js_error

text \<open>
  The mutable state around the functions: the outside world as \<^verbatim>\<open>fetch\<close> sees it, the
  URLs requested so far, the console, and the global \<^verbatim>\<open>currentTheme\<close>.
\<close>

record 'w state =
  world :: 'w
  requested :: "string list"
  console :: "console_line list"
  currentTheme :: "(string \<rightharpoonup> string) option"

text \<open>
  \<^verbatim>\<open>fetch\<close> is a parameter: from the URL, the request body and the world it gives
  the settled promise (\<open>Inl\<close>: rejected, a transport error) and the world after the call.
\<close>

definition doFetch ::
  "(string \<Rightarrow> 'q \<Rightarrow> 'w \<Rightarrow> (js_error + 'a response) \<times> 'w) \<Rightarrow> string \<Rightarrow> 'q \<Rightarrow> 'w state
     \<Rightarrow> (js_error + 'a response) \<times> 'w state" where
  "doFetch fetch url q s =
     (case fetch url q (world s) of
        (res, w) \<Rightarrow> (res, s\<lparr>world := w, requested := requested s @ [url]\<rparr>))"

subsection \<open>Numbers as text\<close>

definition digitChar :: "nat \<Rightarrow> char" where
  "digitChar d = char_of (48 + d)"

text \<open>The digits of the decimal representation of a natural number.\<close>

fun decimalDigits :: "nat \<Rightarrow> string" where
  "decimalDigits n =
     (if n < 10 then [digitChar n] else decimalDigits (n div 10) @ [digitChar (n mod 10)])"

declare decimalDigits.simps [simp del]

text \<open>
  \<^verbatim>\<open>x.toFixed(f)\<close> after ECMAScript's \<^verbatim>\<open>Number.prototype.toFixed\<close>, for a finite
  \<open>x\<close>: the sign is split off; \<open>n\<close> is the integer for which \<open>n / 10^f - x\<close> is closest to
  zero, the larger one of two; its digit string is padded with zeros to \<open>f + 1\<close> characters
  and the point goes before the last \<open>f\<close> of them. Two cases are not modelled and give
  \<open>None\<close>: from \<open>10^21\<close> on the method gives the exponent notation of \<^verbatim>\<open>ToString\<close>,
  and for more than 100 digits it throws a \<^verbatim>\<open>RangeError\<close>.
\<close>

definition toFixed :: "real \<Rightarrow> nat \<Rightarrow> string option" where
  "toFixed x f =
     (if 100 < f \<or> 10 ^ 21 \<le> \<bar>x\<bar> then None
      else
        (let sign = (if x < 0 then ''-'' else []);
             n = nat \<lfloor>\<bar>x\<bar> * 10 ^ f + 1 / 2\<rfloor>;
             m = (if n = 0 then ''0'' else decimalDigits n)
         in if f \<noteq> 0 then
              (let m' = (if length m \<le> f then replicate (f + 1 - length m) (CHR ''0'') @ m else m);
                   k = length m'
               in Some (sign @ take (k - f) m' @ ''.'' @ drop (k - f) m'))
            else Some (sign @ m)))"

subsection \<open>\<^verbatim>\<open>CONFIG\<close>\<close>

record config =
  NOMINATIM_URL :: string
  OVERPASS_SERVERS :: "string list"
  CANVAS_WIDTH :: nat
  CANVAS_HEIGHT :: nat
  USER_AGENT :: string

definition CONFIG :: config where
  "CONFIG =
     \<lparr>NOMINATIM_URL = ''https://nominatim.openstreetmap.org/search'',
      OVERPASS_SERVERS =
        [''https://overpass-api.de/api/interpreter'',
         ''https://overpass.kumi.systems/api/interpreter'',
         ''https://maps.mail.ru/osm/tools/overpass/api/interpreter''],
      CANVAS_WIDTH = 900,
      CANVAS_HEIGHT = 1200,
      USER_AGENT = ''MapToPosterWebApp/1.0''\<rparr>"

subsection \<open>\<^verbatim>\<open>fetchOSMData\<close>\<close>

text \<open>
  The \<^verbatim>\<open>try\<close> block of one iteration (lines 161 to 176), in two parts: what
  happens to the settled promise of \<^verbatim>\<open>fetch\<close> (lines 171 to 176), and the call
  before it. \<open>Inl\<close> is the error the \<^verbatim>\<open>catch\<close> clause receives. The request body
  is the query text, a function of \<open>radiusMeters\<close>, \<open>lat\<close> and \<open>lon\<close> only; it is
  passed to \<open>fetch\<close> as that triple. \<^verbatim>\<open>setLoadingText\<close> writes to the page and is
  left out.
\<close>

definition handleResponse :: "js_error + osm_data response \<Rightarrow> js_error + region" where
  "handleResponse res =
     (case res of
        Inl error \<Rightarrow> Inl error
      | Inr response \<Rightarrow>
          if \<not> ok response
          then Inl (JsError ''Error'' (''Server returned '' @ decimalDigits (status response)))
          else (case json response of
                  Inl error \<Rightarrow> Inl error
                | Inr data \<Rightarrow> parseOSMData data))"

definition tryServer ::
  "(string \<Rightarrow> real \<times> real \<times> real \<Rightarrow> 'w \<Rightarrow> (js_error + osm_data response) \<times> 'w)
     \<Rightarrow> real \<times> real \<times> real \<Rightarrow> string \<Rightarrow> 'w state \<Rightarrow> (js_error + region) \<times> 'w state" where
  "tryServer fetch query serverUrl s =
     (case doFetch fetch serverUrl query s of (res, s1) \<Rightarrow> (handleResponse res, s1))"

text \<open>
  The message of line 185; \<^verbatim>\<open>lastError?.message || \<dots>\<close> takes the alternative when
  there is no error or its message is empty.
\<close>

definition allServersFailed :: "js_error option \<Rightarrow> js_error" where
  "allServersFailed lastError =
     JsError ''Error''
       (''Failed to fetch map data. Please try again in a moment. ('' @
        (case lastError of
           None \<Rightarrow> ''All servers unavailable''
         | Some e \<Rightarrow> if message e = [] then ''All servers unavailable'' else message e) @
        '')'')"

text \<open>The \<^verbatim>\<open>for \<dots> of\<close> loop with its \<^verbatim>\<open>catch\<close> clause, and the \<^verbatim>\<open>throw\<close> after it.\<close>

fun tryServers ::
  "(string \<Rightarrow> real \<times> real \<times> real \<Rightarrow> 'w \<Rightarrow> (js_error + osm_data response) \<times> 'w)
     \<Rightarrow> real \<times> real \<times> real \<Rightarrow> string list \<Rightarrow> js_error option \<Rightarrow> 'w state
     \<Rightarrow> (js_error + region) \<times> 'w state" where
  "tryServers fetch query [] lastError s = (Inl (allServersFailed lastError), s)"
| "tryServers fetch query (serverUrl # rest) lastError s =
     (case tryServer fetch query serverUrl s of
        (Inr result, s1) \<Rightarrow> (Inr result, s1)
      | (Inl error, s1) \<Rightarrow>
          tryServers fetch query rest (Some error)
            (s1\<lparr>console := console s1 @
               [Warn (''Overpass server '' @ serverUrl @ '' failed:'') (message error)]\<rparr>))"

text \<open>\<^verbatim>\<open>CONFIG\<close> is read as a parameter.\<close>

definition fetchOSMData ::
  "config \<Rightarrow> (string \<Rightarrow> real \<times> real \<times> real \<Rightarrow> 'w \<Rightarrow> (js_error + osm_data response) \<times> 'w)
     \<Rightarrow> real \<Rightarrow> real \<Rightarrow> real \<Rightarrow> 'w state \<Rightarrow> (js_error + region) \<times> 'w state" where
  "fetchOSMData cfg fetch lat lon radiusMeters s =
     tryServers fetch (lat, lon, radiusMeters) (OVERPASS_SERVERS cfg) None s"

text \<open>
  What the servers of a list answer when they are asked one after the other, each call
  made in the world the call before it left.
\<close>

fun responses ::
  "(string \<Rightarrow> real \<times> real \<times> real \<Rightarrow> 'w \<Rightarrow> (js_error + osm_data response) \<times> 'w)
     \<Rightarrow> real \<times> real \<times> real \<Rightarrow> string list \<Rightarrow> 'w \<Rightarrow> (js_error + osm_data response) list" where
  "responses fetch query [] w = []"
| "responses fetch query (serverUrl # rest) w =
     (case fetch serverUrl query w of (res, w1) \<Rightarrow> res # responses fetch query rest w1)"

text \<open>
  The outcome of each endpoint in that run: the parsed payload, or the error that the
  \<^verbatim>\<open>catch\<close> clause records.
\<close>

definition outcomes ::
  "(string \<Rightarrow> real \<times> real \<times> real \<Rightarrow> 'w \<Rightarrow> (js_error + osm_data response) \<times> 'w)
     \<Rightarrow> real \<times> real \<times> real \<Rightarrow> string list \<Rightarrow> 'w \<Rightarrow> (js_error + region) list" where
  "outcomes fetch query servers w = map handleResponse (responses fetch query servers w)"

subsection \<open>\<^verbatim>\<open>loadTheme\<close>\<close>

definition fallbackTheme :: "string \<rightharpoonup> string" where
  "fallbackTheme =
     [''name'' \<mapsto> ''Default'',
      ''bg'' \<mapsto> ''#FFFFFF'',
      ''text'' \<mapsto> ''#000000'',
      ''gradient_color'' \<mapsto> ''#FFFFFF'',
      ''water'' \<mapsto> ''#C0C0C0'',
      ''parks'' \<mapsto> ''#F0F0F0'',
      ''road_motorway'' \<mapsto> ''#0A0A0A'',
      ''road_primary'' \<mapsto> ''#1A1A1A'',
      ''road_secondary'' \<mapsto> ''#2A2A2A'',
      ''road_tertiary'' \<mapsto> ''#3A3A3A'',
      ''road_residential'' \<mapsto> ''#4A4A4A'',
      ''road_default'' \<mapsto> ''#3A3A3A'']"

text \<open>
  The \<^verbatim>\<open>try\<close> block of \<^verbatim>\<open>loadTheme\<close> up to the assignment (lines 77 to 81): the parsed
  theme, or the error thrown.
\<close>

definition fetchTheme ::
  "(string \<Rightarrow> unit \<Rightarrow> 'w \<Rightarrow> (js_error + (string \<rightharpoonup> string) response) \<times> 'w) \<Rightarrow> string \<Rightarrow> 'w state
     \<Rightarrow> (js_error + (string \<rightharpoonup> string)) \<times> 'w state" where
  "fetchTheme fetch themeName s =
     (case doFetch fetch (''themes/'' @ themeName @ ''.json'') () s of
        (Inl error, s1) \<Rightarrow> (Inl error, s1)
      | (Inr response, s1) \<Rightarrow>
          if \<not> ok response
          then (Inl (JsError ''Error''
                  (''Theme '' @ [CHR 0x27] @ themeName @ [CHR 0x27] @ '' not found'')), s1)
          else (json response, s1))"

definition loadTheme ::
  "(string \<Rightarrow> unit \<Rightarrow> 'w \<Rightarrow> (js_error + (string \<rightharpoonup> string) response) \<times> 'w) \<Rightarrow> string \<Rightarrow> 'w state
     \<Rightarrow> (string \<rightharpoonup> string) \<times> 'w state" where
  "loadTheme fetch themeName s =
     (case fetchTheme fetch themeName s of
        (Inr theme, s1) \<Rightarrow> (theme, s1\<lparr>currentTheme := Some theme\<rparr>)
      | (Inl error, s1) \<Rightarrow>
          (fallbackTheme,
           s1\<lparr>console := console s1 @ [Error ''Error loading theme:'' error],
              currentTheme := Some fallbackTheme\<rparr>))"

subsection \<open>The coordinate line of \<^verbatim>\<open>drawTypography\<close>\<close>

text \<open>
  Lines 427 to 429. A number is the real it denotes (\<^verbatim>\<open>NaN\<close> and the infinities are
  outside the model); the degree sign is the code unit \<open>0xB0\<close>.
\<close>

definition coordsText :: "real \<Rightarrow> real \<Rightarrow> string option" where
  "coordsText lat lon =
     (let latDir = (if lat \<ge> 0 then ''N'' else ''S'');
          lonDir = (if lon \<ge> 0 then ''E'' else ''W'')
      in case (toFixed \<bar>lat\<bar> 4, toFixed \<bar>lon\<bar> 4) of
           (Some a, Some b) \<Rightarrow>
             Some (a @ [CHR 0xB0] @ '' '' @ latDir @ '' / '' @ b @ [CHR 0xB0] @ '' '' @ lonDir)
         | _ \<Rightarrow> None)"

subsection \<open>\<^verbatim>\<open>createProjection\<close>\<close>





subsection \<open>Four decimals, in the specification's words\<close>

text \<open>
  A number that is not negative, to four decimal places: the nearest count of
  ten-thousandths, a half going up, written as its integer part, a point and four digits.
  \<^verbatim>\<open>toFixed\<close> above works on the digit string instead; \<open>toFixed_four\<close> below shows
  that the two agree.
\<close>

definition tenThousandths :: "real \<Rightarrow> nat" where
  "tenThousandths x = nat \<lfloor>x * 10000 + 1 / 2\<rfloor>"

definition fourDecimals :: "real \<Rightarrow> string" where
  "fourDecimals x =
     (let n = tenThousandths x
      in decimalDigits (n div 10000) @ ''.'' @
         [digitChar (n div 1000 mod 10), digitChar (n div 100 mod 10),
          digitChar (n div 10 mod 10), digitChar (n mod 10)])"

text \<open>The node table that the first loop of \<^verbatim>\<open>parseOSMData\<close> builds.\<close>

definition nodeTable :: "element list \<Rightarrow> (int \<rightharpoonup> coord)" where
  "nodeTable els = forEach collectNode els Map.empty"

subsection \<open>Example inputs\<close>

text \<open>
  The two nodes of the specification's scenario, and a way over given member ids and
  tags (the scenario's way has no id of its own; 0 stands for it).
\<close>

definition node1 :: element where
  "node1 = \<lparr>el_type = ''node'', el_id = 1, el_lat = 52, el_lon = 13,
            el_nodes = None, el_tags = None\<rparr>"

definition node2 :: element where
  "node2 = \<lparr>el_type = ''node'', el_id = 2, el_lat = 52.01, el_lon = 13.01,
            el_nodes = None, el_tags = None\<rparr>"

definition wayOf :: "int list \<Rightarrow> (string \<rightharpoonup> string) \<Rightarrow> element" where
  "wayOf ids tags = \<lparr>el_type = ''way'', el_id = 0, el_lat = 0, el_lon = 0,
                     el_nodes = Some ids, el_tags = Some tags\<rparr>"

definition point1 :: coord where
  "point1 = \<lparr>coord_lat = 52, coord_lon = 13\<rparr>"

definition point2 :: coord where
  "point2 = \<lparr>coord_lat = 52.01, coord_lon = 13.01\<rparr>"

definition threeRoads :: "element list" where
  "threeRoads =
     [node1, node2,
      wayOf [1, 2] [''highway'' \<mapsto> ''motorway''],
      wayOf [2, 1] [''highway'' \<mapsto> ''service''],
      wayOf [1, 2, 1] [''highway'' \<mapsto> ''track'']]"

definition waterRelation :: element where
  "waterRelation = \<lparr>el_type = ''relation'', el_id = 0, el_lat = 0, el_lon = 0,
                    el_nodes = Some [1, 2, 1], el_tags = Some [''natural'' \<mapsto> ''water'']\<rparr>"


text \<open>
  A network that counts the calls made to it: the first call is rejected, the second
  is answered with status 504, every later one with the scenario's elements. And a page
  state before any call.
\<close>

definition flakyFetch ::
  "string \<Rightarrow> real \<times> real \<times> real \<Rightarrow> nat \<Rightarrow> (js_error + osm_data response) \<times> nat" where
  "flakyFetch url query n =
     (if n = 0 then Inl (JsError ''TypeError'' ''Failed to fetch'')
      else if n = 1 then Inr \<lparr>status = 504, json = Inl (JsError ''SyntaxError'' ''Unexpected token <'')\<rparr>
      else Inr \<lparr>status = 200,
                json = Inr \<lparr>elements =
                  Some [node1, node2, wayOf [1, 2] [''highway'' \<mapsto> ''primary'']]\<rparr>\<rparr>,
      Suc n)"

definition initialState :: "nat state" where
  "initialState = \<lparr>world = 0, requested = [], console = [], currentTheme = None\<rparr>"

text \<open>
  A network on which no endpoint works: two calls are rejected, every later one is
  answered with status 503.
\<close>

definition deadFetch ::
  "string \<Rightarrow> real \<times> real \<times> real \<Rightarrow> nat \<Rightarrow> (js_error + osm_data response) \<times> nat" where
  "deadFetch url query n =
     (if n < 2 then Inl (JsError ''TypeError'' ''Failed to fetch'')
      else Inr \<lparr>status = 503, json = Inr \<lparr>elements = Some []\<rparr>\<rparr>,
      Suc n)"

text \<open>
  A theme file that parses and has every required key but \<open>water\<close>, a server that
  answers every request with it, and one that answers every request with status 404.
\<close>

definition noWaterTheme :: "string \<rightharpoonup> string" where
  "noWaterTheme =
     [''name'' \<mapsto> ''Noir'',
      ''bg'' \<mapsto> ''#000000'',
      ''text'' \<mapsto> ''#FFFFFF'',
      ''gradient_color'' \<mapsto> ''#000000'',
      ''parks'' \<mapsto> ''#111111'',
      ''road_motorway'' \<mapsto> ''#FFFFFF'',
      ''road_primary'' \<mapsto> ''#EEEEEE'',
      ''road_secondary'' \<mapsto> ''#DDDDDD'',
      ''road_tertiary'' \<mapsto> ''#CCCCCC'',
      ''road_residential'' \<mapsto> ''#BBBBBB'',
      ''road_default'' \<mapsto> ''#AAAAAA'']"

definition noWaterFetch ::
  "string \<Rightarrow> unit \<Rightarrow> nat \<Rightarrow> (js_error + (string \<rightharpoonup> string) response) \<times> nat" where
  "noWaterFetch url query n = (Inr \<lparr>status = 200, json = Inr noWaterTheme\<rparr>, Suc n)"

definition notFoundFetch ::
  "string \<Rightarrow> unit \<Rightarrow> nat \<Rightarrow> (js_error + (string \<rightharpoonup> string) response) \<times> nat" where
  "notFoundFetch url query n =
     (Inr \<lparr>status = 404, json = Inl (JsError ''SyntaxError'' ''Unexpected token <'')\<rparr>, Suc n)"

section \<open>Properties\<close>

subsection \<open>The loops of \<^verbatim>\<open>parseOSMData\<close>\<close>

lemma forEach_append: "forEach f (xs @ ys) s = forEach f ys (forEach f xs s)"
  by (induction xs arbitrary: s) simp_all

lemma nodes_classifyElement: "nodes (classifyElement el s) = nodes s"
  by (simp add: classifyElement_def Let_def)

lemma nodes_forEach_classify: "nodes (forEach classifyElement els s) = nodes s"
  by (induction els arbitrary: s) (simp_all add: nodes_classifyElement)

lemma step_roads: "roads (classifyElement el s) = roads s @ roads (contribution (nodes s) el)"
  by (simp add: classifyElement_def contribution_def emptyRegion_def Let_def)

lemma step_waterWays:
  "waterWays (classifyElement el s) = waterWays s @ waterWays (contribution (nodes s) el)"
  by (simp add: classifyElement_def contribution_def emptyRegion_def Let_def)

lemma step_waterPolygons:
  "waterPolygons (classifyElement el s) = waterPolygons s @ waterPolygons (contribution (nodes s) el)"
  by (simp add: classifyElement_def contribution_def emptyRegion_def Let_def)

lemma step_parks: "parks (classifyElement el s) = parks s @ parks (contribution (nodes s) el)"
  by (simp add: classifyElement_def contribution_def emptyRegion_def Let_def)

lemma loop_roads:
  "roads (forEach classifyElement els s) =
     roads s @ concat (map (\<lambda>el. roads (contribution (nodes s) el)) els)"
  by (induction els arbitrary: s) (simp_all add: step_roads nodes_classifyElement)

lemma loop_waterWays:
  "waterWays (forEach classifyElement els s) =
     waterWays s @ concat (map (\<lambda>el. waterWays (contribution (nodes s) el)) els)"
  by (induction els arbitrary: s) (simp_all add: step_waterWays nodes_classifyElement)

lemma loop_waterPolygons:
  "waterPolygons (forEach classifyElement els s) =
     waterPolygons s @ concat (map (\<lambda>el. waterPolygons (contribution (nodes s) el)) els)"
  by (induction els arbitrary: s) (simp_all add: step_waterPolygons nodes_classifyElement)

lemma loop_parks:
  "parks (forEach classifyElement els s) =
     parks s @ concat (map (\<lambda>el. parks (contribution (nodes s) el)) els)"
  by (induction els arbitrary: s) (simp_all add: step_parks nodes_classifyElement)

text \<open>The result of \<^verbatim>\<open>parseOSMData\<close>, field by field.\<close>

lemma parseOSMData_fields:
  assumes "elements data = Some els"
  shows "\<exists>r. parseOSMData data = Inr r
    \<and> nodes r = nodeTable els
    \<and> roads r = array_sort roadCompare (concat (map (\<lambda>el. roads (contribution (nodeTable els) el)) els))
    \<and> waterWays r = concat (map (\<lambda>el. waterWays (contribution (nodeTable els) el)) els)
    \<and> waterPolygons r = concat (map (\<lambda>el. waterPolygons (contribution (nodeTable els) el)) els)
    \<and> parks r = concat (map (\<lambda>el. parks (contribution (nodeTable els) el)) els)"
  using assms
  by (simp add: parseOSMData_def Let_def nodeTable_def loop_roads loop_waterWays
      loop_waterPolygons loop_parks nodes_forEach_classify)

subsection \<open>The road order\<close>

lemma array_sort_roadCompare:
  "array_sort roadCompare rs = sort_key (\<lambda>r. indexOf roadOrder (road_type r)) rs"
proof -
  have "insertBy roadCompare x ys = insort_key (\<lambda>r. indexOf roadOrder (road_type r)) x ys" for x ys
    by (induction ys) (simp_all add: roadCompare_def)
  then have "insertBy roadCompare = insort_key (\<lambda>r. indexOf roadOrder (road_type r))"
    by (intro ext)
  then show ?thesis by (simp add: array_sort_def sort_key_def)
qed

lemma indexOfFrom_notin: "x \<notin> set xs \<Longrightarrow> indexOfFrom xs x i = -1"
  by (induction xs arbitrary: i) auto

lemma indexOfFrom_in:
  "x \<in> set xs \<Longrightarrow> i \<le> indexOfFrom xs x i \<and> indexOfFrom xs x i < i + int (length xs)"
proof (induction xs arbitrary: i)
  case Nil
  then show ?case by simp
next
  case (Cons y ys)
  show ?case
  proof (cases "y = x")
    case True
    then show ?thesis by simp
  next
    case False
    with Cons.prems have "x \<in> set ys" by simp
    from Cons.IH [OF this, of "i + 1"] False show ?thesis by simp
  qed
qed

lemma unknown_first:
  assumes srt: "sorted (map (\<lambda>r. indexOf roadOrder (road_type r)) rs)"
    and i: "i < length rs" and j: "j < length rs"
    and ti: "road_type (rs ! i) \<notin> set roadOrder"
    and tj: "road_type (rs ! j) \<in> set roadOrder"
  shows "i < j"
proof (rule ccontr)
  assume "\<not> i < j"
  then have "j \<le> i" by simp
  with srt i have "map (\<lambda>r. indexOf roadOrder (road_type r)) rs ! j
      \<le> map (\<lambda>r. indexOf roadOrder (road_type r)) rs ! i"
    by (simp add: sorted_iff_nth_mono del: nth_map)
  with i j have "indexOf roadOrder (road_type (rs ! j)) \<le> indexOf roadOrder (road_type (rs ! i))"
    by simp
  moreover have "indexOf roadOrder (road_type (rs ! i)) = -1"
    using ti by (simp add: indexOf_def indexOfFrom_notin)
  moreover have "0 \<le> indexOf roadOrder (road_type (rs ! j))"
    using indexOfFrom_in [OF tj, of 0] by (simp add: indexOf_def)
  ultimately show False by simp
qed

lemma roadOrder_indices:
  "map (indexOf roadOrder)
     [''service'', ''living_street'', ''unclassified'', ''residential'', ''tertiary_link'',
      ''tertiary'', ''secondary_link'', ''secondary'', ''primary_link'', ''primary'',
      ''trunk_link'', ''trunk'', ''motorway_link'', ''motorway'']
   = [0, 1, 2, 3, 4, 5, 6, 7, 8, 9, 10, 11, 12, 13]"
  by (simp add: indexOf_def roadOrder_def)

text \<open>
  C1. The roads of the result are the roads that the second loop classifies from the
  input elements, each as often as it is classified, in ascending order of their index
  in the priority table of fourteen entries (service 0, living_street 1, \<dots>, motorway 13,
  any other subtype -1), so a road whose subtype is not in the table stands before every
  road whose subtype is; the sort that gives this order keeps every road of any list it is
  applied to.
\<close>

theorem roads_sorted_by_priority:
  assumes "elements data = Some els"
  shows "\<exists>r. parseOSMData data = Inr r
    \<and> mset (roads r) =
        mset (concat (map (\<lambda>el. roads (contribution (nodeTable els) el)) els))
    \<and> sorted (map (\<lambda>x. indexOf roadOrder (road_type x)) (roads r))
    \<and> (\<forall>i j. i < length (roads r) \<and> j < length (roads r)
          \<and> road_type (roads r ! i) \<notin> set roadOrder \<and> road_type (roads r ! j) \<in> set roadOrder
          \<longrightarrow> i < j)
    \<and> (\<forall>rs. sorted (map (\<lambda>x. indexOf roadOrder (road_type x)) (array_sort roadCompare rs))
          \<and> mset (array_sort roadCompare rs) = mset rs)
    \<and> map (indexOf roadOrder)
         [''service'', ''living_street'', ''unclassified'', ''residential'', ''tertiary_link'',
          ''tertiary'', ''secondary_link'', ''secondary'', ''primary_link'', ''primary'',
          ''trunk_link'', ''trunk'', ''motorway_link'', ''motorway'']
       = [0, 1, 2, 3, 4, 5, 6, 7, 8, 9, 10, 11, 12, 13]
    \<and> (\<forall>t. t \<notin> set roadOrder \<longrightarrow> indexOf roadOrder t = -1)"
proof -
  from parseOSMData_fields [OF assms] obtain r where r: "parseOSMData data = Inr r"
    and rr: "roads r = array_sort roadCompare
               (concat (map (\<lambda>el. roads (contribution (nodeTable els) el)) els))"
    by blast
  have srt: "sorted (map (\<lambda>x. indexOf roadOrder (road_type x)) (array_sort roadCompare rs))" for rs
    by (simp add: array_sort_roadCompare)
  have ms: "mset (array_sort roadCompare rs) = mset rs" for rs
    by (simp add: array_sort_roadCompare)
  have link: "mset (roads r) =
      mset (concat (map (\<lambda>el. roads (contribution (nodeTable els) el)) els))"
    unfolding rr by (rule ms)
  have s1: "sorted (map (\<lambda>x. indexOf roadOrder (road_type x)) (roads r))"
    unfolding rr by (rule srt)
  have uf: "\<forall>i j. i < length (roads r) \<and> j < length (roads r)
          \<and> road_type (roads r ! i) \<notin> set roadOrder \<and> road_type (roads r ! j) \<in> set roadOrder
          \<longrightarrow> i < j"
    using unknown_first [OF s1] by blast
  have un: "\<forall>t. t \<notin> set roadOrder \<longrightarrow> indexOf roadOrder t = -1"
    by (simp add: indexOf_def indexOfFrom_notin)
  have gen: "\<forall>rs. sorted (map (\<lambda>x. indexOf roadOrder (road_type x)) (array_sort roadCompare rs))
          \<and> mset (array_sort roadCompare rs) = mset rs"
    by (intro allI conjI srt ms)
  show ?thesis
    by (rule exI [of _ r]) (intro conjI r link s1 uf gen roadOrder_indices un)
qed

theorem roads_sorted_by_priority_witness:
  "elements \<lparr>elements = Some threeRoads\<rparr> = Some threeRoads
   \<and> (\<exists>r. parseOSMData \<lparr>elements = Some threeRoads\<rparr> = Inr r
        \<and> map road_type (roads r) = [''track'', ''service'', ''motorway'']
        \<and> mset (roads r) =
            mset (concat (map (\<lambda>el. roads (contribution (nodeTable threeRoads) el)) threeRoads))
        \<and> sorted (map (\<lambda>x. indexOf roadOrder (road_type x)) (roads r))
        \<and> 0 < length (roads r) \<and> 1 < length (roads r)
        \<and> road_type (roads r ! 0) \<notin> set roadOrder \<and> road_type (roads r ! 1) \<in> set roadOrder
        \<and> ''track'' \<notin> set roadOrder \<and> indexOf roadOrder ''track'' = -1)"
proof -
  have h: "elements \<lparr>elements = Some threeRoads\<rparr> = Some threeRoads"
    by simp
  from roads_sorted_by_priority [OF h] obtain r
    where r: "parseOSMData \<lparr>elements = Some threeRoads\<rparr> = Inr r"
      and k: "mset (roads r) =
            mset (concat (map (\<lambda>el. roads (contribution (nodeTable threeRoads) el)) threeRoads))"
      and s: "sorted (map (\<lambda>x. indexOf roadOrder (road_type x)) (roads r))"
      and u: "\<forall>t. t \<notin> set roadOrder \<longrightarrow> indexOf roadOrder t = -1"
    by - (erule exE, elim conjE)
  have "parseOSMData \<lparr>elements = Some threeRoads\<rparr> =
          Inr \<lparr>roads = [\<lparr>coords = [point1, point2, point1], road_type = ''track''\<rparr>,
                        \<lparr>coords = [point2, point1], road_type = ''service''\<rparr>,
                        \<lparr>coords = [point1, point2], road_type = ''motorway''\<rparr>],
               waterWays = [], waterPolygons = [], parks = [],
               nodes = [1 \<mapsto> point1, 2 \<mapsto> point2]\<rparr>"
    by (simp add: threeRoads_def node1_def node2_def wayOf_def point1_def point2_def
        parseOSMData_def classifyElement_def collectNode_def resolve_def truthy_def
        array_sort_def roadCompare_def indexOf_def roadOrder_def Let_def)
  with r have rv: "roads r = [\<lparr>coords = [point1, point2, point1], road_type = ''track''\<rparr>,
                        \<lparr>coords = [point2, point1], road_type = ''service''\<rparr>,
                        \<lparr>coords = [point1, point2], road_type = ''motorway''\<rparr>]"
    by auto
  have m: "map road_type (roads r) = [''track'', ''service'', ''motorway'']"
    and l: "0 < length (roads r)" "1 < length (roads r)"
    unfolding rv by simp_all
  have t: "''track'' \<notin> set roadOrder"
    by (simp add: roadOrder_def)
  have a: "road_type (roads r ! 0) \<notin> set roadOrder"
    and b: "road_type (roads r ! 1) \<in> set roadOrder"
    unfolding rv by (simp_all add: roadOrder_def)
  from u t have i: "indexOf roadOrder ''track'' = -1"
    by blast
  from h r m k s l a b t i show ?thesis
    by (intro conjI exI [of _ r])
qed

subsection \<open>Taking one element out of the input\<close>

lemma resolve_filter: "resolve ns ids = map (\<lambda>i. the (ns i)) (filter (\<lambda>i. ns i \<noteq> None) ids)"
  by (simp add: resolve_def filter_map comp_def)

lemma collectNode_other: "el_type el \<noteq> ''node'' \<Longrightarrow> collectNode el ns = ns"
  by (simp add: collectNode_def)

lemma nodeTable_remove:
  "el_type el \<noteq> ''node'' \<Longrightarrow> nodeTable (xs @ el # ys) = nodeTable (xs @ ys)"
  by (simp add: nodeTable_def forEach_append collectNode_other)

lemma closedRing_hd_last: "ids \<noteq> [] \<Longrightarrow> closedRing ids \<longleftrightarrow> hd ids = last ids"
  by (cases ids) (auto simp: closedRing_def elemAt_def last_conv_nth hd_conv_nth nat_diff_distrib')

lemma parse_insert:
  assumes "el_type el \<noteq> ''node''"
  shows "\<exists>r r' R W P K.
      parseOSMData \<lparr>elements = Some (xs @ el # ys)\<rparr> = Inr r
    \<and> parseOSMData \<lparr>elements = Some (xs @ ys)\<rparr> = Inr r'
    \<and> nodes r = nodeTable (xs @ el # ys) \<and> nodes r' = nodes r
    \<and> roads r = array_sort roadCompare (fst R @ roads (contribution (nodes r) el) @ snd R)
    \<and> roads r' = array_sort roadCompare (fst R @ snd R)
    \<and> waterWays r = fst W @ waterWays (contribution (nodes r) el) @ snd W
    \<and> waterWays r' = fst W @ snd W
    \<and> waterPolygons r = fst P @ waterPolygons (contribution (nodes r) el) @ snd P
    \<and> waterPolygons r' = fst P @ snd P
    \<and> parks r = fst K @ parks (contribution (nodes r) el) @ snd K
    \<and> parks r' = fst K @ snd K"
proof -
  let ?ns = "nodeTable (xs @ el # ys)"
  have ns: "nodeTable (xs @ ys) = ?ns"
    using assms by (simp add: nodeTable_remove)
  from parseOSMData_fields [of "\<lparr>elements = Some (xs @ el # ys)\<rparr>" "xs @ el # ys"]
  obtain r where r: "parseOSMData \<lparr>elements = Some (xs @ el # ys)\<rparr> = Inr r"
    "nodes r = ?ns"
    "roads r = array_sort roadCompare (concat (map (\<lambda>el. roads (contribution ?ns el)) (xs @ el # ys)))"
    "waterWays r = concat (map (\<lambda>el. waterWays (contribution ?ns el)) (xs @ el # ys))"
    "waterPolygons r = concat (map (\<lambda>el. waterPolygons (contribution ?ns el)) (xs @ el # ys))"
    "parks r = concat (map (\<lambda>el. parks (contribution ?ns el)) (xs @ el # ys))"
    by auto
  from parseOSMData_fields [of "\<lparr>elements = Some (xs @ ys)\<rparr>" "xs @ ys"]
  obtain r' where r': "parseOSMData \<lparr>elements = Some (xs @ ys)\<rparr> = Inr r'"
    "nodes r' = ?ns"
    "roads r' = array_sort roadCompare (concat (map (\<lambda>el. roads (contribution ?ns el)) (xs @ ys)))"
    "waterWays r' = concat (map (\<lambda>el. waterWays (contribution ?ns el)) (xs @ ys))"
    "waterPolygons r' = concat (map (\<lambda>el. waterPolygons (contribution ?ns el)) (xs @ ys))"
    "parks r' = concat (map (\<lambda>el. parks (contribution ?ns el)) (xs @ ys))"
    unfolding ns by auto
  let ?R = "(concat (map (\<lambda>el. roads (contribution ?ns el)) xs),
             concat (map (\<lambda>el. roads (contribution ?ns el)) ys))"
  let ?W = "(concat (map (\<lambda>el. waterWays (contribution ?ns el)) xs),
             concat (map (\<lambda>el. waterWays (contribution ?ns el)) ys))"
  let ?P = "(concat (map (\<lambda>el. waterPolygons (contribution ?ns el)) xs),
             concat (map (\<lambda>el. waterPolygons (contribution ?ns el)) ys))"
  let ?K = "(concat (map (\<lambda>el. parks (contribution ?ns el)) xs),
             concat (map (\<lambda>el. parks (contribution ?ns el)) ys))"
  show ?thesis
    apply (rule exI [of _ r], rule exI [of _ r'])
    apply (rule exI [of _ ?R], rule exI [of _ ?W], rule exI [of _ ?P], rule exI [of _ ?K])
    apply (simp add: r r')
    done
qed


lemma region_eqI:
  "roads r = roads r' \<Longrightarrow> waterWays r = waterWays r' \<Longrightarrow> waterPolygons r = waterPolygons r'
   \<Longrightarrow> parks r = parks r' \<Longrightarrow> nodes r = nodes r' \<Longrightarrow> r = (r' :: region)"
  by (cases r, cases r') simp

lemma contribution_gate:
  "el_type el \<noteq> ''way'' \<or> el_nodes el = None \<or> el_tags el = None
   \<Longrightarrow> contribution ns el = emptyRegion ns"
  by (auto simp: contribution_def classifyElement_def)

lemma contribution_short:
  "el_nodes el = Some ids \<Longrightarrow> length (resolve ns ids) < 2 \<Longrightarrow> contribution ns el = emptyRegion ns"
  by (simp add: contribution_def classifyElement_def Let_def emptyRegion_def)

lemma parse_remove:
  assumes "el_type el \<noteq> ''node''"
    and "contribution (nodeTable (xs @ el # ys)) el = emptyRegion (nodeTable (xs @ el # ys))"
  shows "\<exists>r. parseOSMData \<lparr>elements = Some (xs @ el # ys)\<rparr> = Inr r
    \<and> nodes r = nodeTable (xs @ el # ys)
    \<and> parseOSMData \<lparr>elements = Some (xs @ ys)\<rparr> = Inr r"
proof -
  from parse_insert [OF assms(1), of xs ys] obtain r r' R W P K where
      r: "parseOSMData \<lparr>elements = Some (xs @ el # ys)\<rparr> = Inr r"
    and r': "parseOSMData \<lparr>elements = Some (xs @ ys)\<rparr> = Inr r'"
    and n: "nodes r = nodeTable (xs @ el # ys)" "nodes r' = nodes r"
    and f: "roads r = array_sort roadCompare (fst R @ roads (contribution (nodes r) el) @ snd R)"
      "roads r' = array_sort roadCompare (fst R @ snd R)"
      "waterWays r = fst W @ waterWays (contribution (nodes r) el) @ snd W"
      "waterWays r' = fst W @ snd W"
      "waterPolygons r = fst P @ waterPolygons (contribution (nodes r) el) @ snd P"
      "waterPolygons r' = fst P @ snd P"
      "parks r = fst K @ parks (contribution (nodes r) el) @ snd K"
      "parks r' = fst K @ snd K"
    by (elim exE conjE)
  have c: "contribution (nodes r) el = emptyRegion (nodes r)"
    using assms(2) n(1) by simp
  have "roads r = roads r'"
    unfolding f c by (simp add: emptyRegion_def)
  moreover have "waterWays r = waterWays r'"
    unfolding f c by (simp add: emptyRegion_def)
  moreover have "waterPolygons r = waterPolygons r'"
    unfolding f c by (simp add: emptyRegion_def)
  moreover have "parks r = parks r'"
    unfolding f c by (simp add: emptyRegion_def)
  ultimately have "r = r'"
    using n(2) by (intro region_eqI) simp_all
  with r r' n(1) show ?thesis by simp
qed

text \<open>
  C6. A way of which fewer than two member ids have an entry in the node table adds
  nothing: the result is the one for the input without that way.
\<close>

theorem short_way_dropped:
  assumes "el_type el = ''way''" and "el_nodes el = Some ids"
    and "length (filter (\<lambda>i. nodeTable (xs @ el # ys) i \<noteq> None) ids) < 2"
  shows "\<exists>r. parseOSMData \<lparr>elements = Some (xs @ el # ys)\<rparr> = Inr r
    \<and> nodes r = nodeTable (xs @ el # ys)
    \<and> parseOSMData \<lparr>elements = Some (xs @ ys)\<rparr> = Inr r"
proof (rule parse_remove)
  show "el_type el \<noteq> ''node''"
    using assms(1) by simp
  have "length (resolve (nodeTable (xs @ el # ys)) ids) < 2"
    using assms(3) by (simp add: resolve_filter)
  with assms(2)
  show "contribution (nodeTable (xs @ el # ys)) el = emptyRegion (nodeTable (xs @ el # ys))"
    by (rule contribution_short)
qed

theorem short_way_dropped_witness:
  "el_type (wayOf [1, 7] [''highway'' \<mapsto> ''primary'']) = ''way''
   \<and> el_nodes (wayOf [1, 7] [''highway'' \<mapsto> ''primary'']) = Some [1, 7]
   \<and> length (filter (\<lambda>i. nodeTable ([node1, node2] @ wayOf [1, 7] [''highway'' \<mapsto> ''primary''] # []) i \<noteq> None)
        [1, 7]) < 2
   \<and> (\<exists>r. parseOSMData
            \<lparr>elements = Some ([node1, node2] @ wayOf [1, 7] [''highway'' \<mapsto> ''primary''] # [])\<rparr> = Inr r
        \<and> parseOSMData \<lparr>elements = Some ([node1, node2] @ [])\<rparr> = Inr r
        \<and> roads r = [])"
proof -
  let ?w = "wayOf [1, 7] [''highway'' \<mapsto> ''primary'']"
  have h1: "el_type ?w = ''way''" and h2: "el_nodes ?w = Some [1, 7]"
    by (simp_all add: wayOf_def)
  have h3: "length (filter (\<lambda>i. nodeTable ([node1, node2] @ ?w # []) i \<noteq> None) [1, 7]) < 2"
    by (simp add: nodeTable_def collectNode_def node1_def node2_def wayOf_def)
  from short_way_dropped [OF h1 h2 h3] obtain r where
      r: "parseOSMData \<lparr>elements = Some ([node1, node2] @ ?w # [])\<rparr> = Inr r"
    and r': "parseOSMData \<lparr>elements = Some ([node1, node2] @ [])\<rparr> = Inr r"
    by (elim exE conjE)
  have "parseOSMData \<lparr>elements = Some ([node1, node2] @ [])\<rparr> =
          Inr \<lparr>roads = [], waterWays = [], waterPolygons = [], parks = [],
               nodes = [1 \<mapsto> point1, 2 \<mapsto> point2]\<rparr>"
    by (simp add: node1_def node2_def point1_def point2_def parseOSMData_def
        classifyElement_def collectNode_def array_sort_def Let_def)
  with r' have "roads r = []" by auto
  with h1 h2 h3 r r' show ?thesis
    by (intro conjI exI [of _ r])
qed

lemma forEach_classify_filter:
  "forEach classifyElement els s =
   forEach classifyElement
     (filter (\<lambda>el. el_type el = ''way'' \<and> el_nodes el \<noteq> None \<and> el_tags el \<noteq> None) els) s"
proof (induction els arbitrary: s)
  case Nil
  show ?case by simp
next
  case (Cons el els)
  show ?case
  proof (cases "el_type el = ''way'' \<and> el_nodes el \<noteq> None \<and> el_tags el \<noteq> None")
    case True
    then show ?thesis by (simp add: Cons.IH)
  next
    case False
    then have "classifyElement el s = s"
      by (auto simp: classifyElement_def)
    with False show ?thesis by (simp add: Cons.IH)
  qed
qed

text \<open>
  C9. The second loop of \<^verbatim>\<open>parseOSMData\<close> gives the same arrays when it runs over
  only the elements of type \<open>way\<close> that have a member list and a tag set; and an element
  of type \<open>relation\<close>, whatever its tags and members, can be taken out of the input
  without changing the result.
\<close>

theorem only_ways_classified:
  "forEach classifyElement els s =
     forEach classifyElement
       (filter (\<lambda>el. el_type el = ''way'' \<and> el_nodes el \<noteq> None \<and> el_tags el \<noteq> None) els) s
   \<and> (el_type el = ''relation'' \<longrightarrow>
        (\<exists>r. parseOSMData \<lparr>elements = Some (xs @ el # ys)\<rparr> = Inr r
           \<and> parseOSMData \<lparr>elements = Some (xs @ ys)\<rparr> = Inr r))"
proof (intro conjI impI)
  show "forEach classifyElement els s =
     forEach classifyElement
       (filter (\<lambda>el. el_type el = ''way'' \<and> el_nodes el \<noteq> None \<and> el_tags el \<noteq> None) els) s"
    by (rule forEach_classify_filter)
next
  assume rel: "el_type el = ''relation''"
  then have "el_type el \<noteq> ''node''" and "el_type el \<noteq> ''way''"
    by simp_all
  from parse_remove [OF this(1) contribution_gate, of xs ys] this(2)
  show "\<exists>r. parseOSMData \<lparr>elements = Some (xs @ el # ys)\<rparr> = Inr r
           \<and> parseOSMData \<lparr>elements = Some (xs @ ys)\<rparr> = Inr r"
    by blast
qed

theorem only_ways_classified_witness:
  "el_type waterRelation = ''relation''
   \<and> (\<exists>r. parseOSMData \<lparr>elements = Some ([node1, node2] @ waterRelation # [])\<rparr> = Inr r
        \<and> parseOSMData \<lparr>elements = Some ([node1, node2] @ [])\<rparr> = Inr r
        \<and> waterPolygons r = [])"
proof -
  have h: "el_type waterRelation = ''relation''"
    by (simp add: waterRelation_def)
  from only_ways_classified [of "[]" "emptyRegion Map.empty" waterRelation "[node1, node2]" "[]"] h
  obtain r where
      r: "parseOSMData \<lparr>elements = Some ([node1, node2] @ waterRelation # [])\<rparr> = Inr r"
    and r': "parseOSMData \<lparr>elements = Some ([node1, node2] @ [])\<rparr> = Inr r"
    by (elim conjE impE exE)
  have "parseOSMData \<lparr>elements = Some ([node1, node2] @ [])\<rparr> =
          Inr \<lparr>roads = [], waterWays = [], waterPolygons = [], parks = [],
               nodes = [1 \<mapsto> point1, 2 \<mapsto> point2]\<rparr>"
    by (simp add: node1_def node2_def point1_def point2_def parseOSMData_def
        classifyElement_def collectNode_def array_sort_def Let_def)
  with r' have "waterPolygons r = []" by auto
  with h r r' show ?thesis
    by (intro conjI exI [of _ r])
qed

subsection \<open>What one way adds\<close>









lemma contribution_road:
  assumes "el_type el = ''way''" "el_nodes el = Some ids" "el_tags el = Some tags"
    and "2 \<le> length (resolve ns ids)" and "truthy (tags ''highway'')"
  shows "contribution ns el =
    \<lparr>roads = [\<lparr>coords = resolve ns ids, road_type = the (tags ''highway'')\<rparr>],
     waterWays = [], waterPolygons = [], parks = [], nodes = ns\<rparr>"
  using assms by (simp add: contribution_def classifyElement_def emptyRegion_def Let_def)

lemma contribution_water:
  assumes "el_type el = ''way''" "el_nodes el = Some ids" "el_tags el = Some tags"
    and "2 \<le> length (resolve ns ids)" and "\<not> truthy (tags ''highway'')"
    and "tags ''natural'' = Some ''water'' \<or> truthy (tags ''waterway'')"
  shows "contribution ns el =
    (if closedRing ids
     then \<lparr>roads = [], waterWays = [], waterPolygons = [\<lparr>coords = resolve ns ids\<rparr>],
           parks = [], nodes = ns\<rparr>
     else \<lparr>roads = [], waterWays = [\<lparr>coords = resolve ns ids\<rparr>], waterPolygons = [],
           parks = [], nodes = ns\<rparr>)"
  using assms by (simp add: contribution_def classifyElement_def emptyRegion_def Let_def)

lemma contribution_park:
  assumes "el_type el = ''way''" "el_nodes el = Some ids" "el_tags el = Some tags"
    and "2 \<le> length (resolve ns ids)" and "\<not> truthy (tags ''highway'')"
    and "\<not> (tags ''natural'' = Some ''water'' \<or> truthy (tags ''waterway''))"
    and "tags ''leisure'' = Some ''park'' \<or> tags ''landuse'' = Some ''grass''"
  shows "contribution ns el =
    (if closedRing ids
     then \<lparr>roads = [], waterWays = [], waterPolygons = [],
           parks = [\<lparr>coords = resolve ns ids\<rparr>], nodes = ns\<rparr>
     else emptyRegion ns)"
  using assms by (simp add: contribution_def classifyElement_def emptyRegion_def Let_def)

lemma contribution_untagged:
  assumes "el_tags el = Some tags"
    and "\<not> truthy (tags ''highway'')"
    and "\<not> (tags ''natural'' = Some ''water'' \<or> truthy (tags ''waterway''))"
    and "\<not> (tags ''leisure'' = Some ''park'' \<or> tags ''landuse'' = Some ''grass'')"
  shows "contribution ns el = emptyRegion ns"
  using assms by (simp add: contribution_def classifyElement_def emptyRegion_def Let_def)

lemma contribution_open:
  assumes "el_nodes el = Some ids" and "\<not> closedRing ids"
  shows "waterPolygons (contribution ns el) = [] \<and> parks (contribution ns el) = []"
  using assms by (simp add: contribution_def classifyElement_def emptyRegion_def Let_def)

text \<open>The result with a way, against the result without it.\<close>

lemma way_insert:
  assumes "el_type el = ''way''"
  shows "\<exists>r r'.
      parseOSMData \<lparr>elements = Some (xs @ el # ys)\<rparr> = Inr r
    \<and> parseOSMData \<lparr>elements = Some (xs @ ys)\<rparr> = Inr r'
    \<and> nodes r = nodeTable (xs @ el # ys) \<and> nodes r' = nodes r
    \<and> mset (roads r) = mset (roads (contribution (nodes r) el)) + mset (roads r')
    \<and> (roads (contribution (nodes r) el) = [] \<longrightarrow> roads r = roads r')
    \<and> mset (waterWays r) = mset (waterWays (contribution (nodes r) el)) + mset (waterWays r')
    \<and> (waterWays (contribution (nodes r) el) = [] \<longrightarrow> waterWays r = waterWays r')
    \<and> mset (waterPolygons r) = mset (waterPolygons (contribution (nodes r) el)) + mset (waterPolygons r')
    \<and> (waterPolygons (contribution (nodes r) el) = [] \<longrightarrow> waterPolygons r = waterPolygons r')
    \<and> mset (parks r) = mset (parks (contribution (nodes r) el)) + mset (parks r')
    \<and> (parks (contribution (nodes r) el) = [] \<longrightarrow> parks r = parks r')"
proof -
  from assms have "el_type el \<noteq> ''node''" by simp
  from parse_insert [OF this, of xs ys] obtain r r' R W P K where
      r: "parseOSMData \<lparr>elements = Some (xs @ el # ys)\<rparr> = Inr r"
    and r': "parseOSMData \<lparr>elements = Some (xs @ ys)\<rparr> = Inr r'"
    and n: "nodes r = nodeTable (xs @ el # ys)" "nodes r' = nodes r"
    and f: "roads r = array_sort roadCompare (fst R @ roads (contribution (nodes r) el) @ snd R)"
      "roads r' = array_sort roadCompare (fst R @ snd R)"
      "waterWays r = fst W @ waterWays (contribution (nodes r) el) @ snd W"
      "waterWays r' = fst W @ snd W"
      "waterPolygons r = fst P @ waterPolygons (contribution (nodes r) el) @ snd P"
      "waterPolygons r' = fst P @ snd P"
      "parks r = fst K @ parks (contribution (nodes r) el) @ snd K"
      "parks r' = fst K @ snd K"
    by (elim exE conjE)
  have 1: "mset (roads r) = mset (roads (contribution (nodes r) el)) + mset (roads r')"
    unfolding f array_sort_roadCompare by simp
  have 2: "roads (contribution (nodes r) el) = [] \<longrightarrow> roads r = roads r'"
    unfolding f by simp
  have 3: "mset (waterWays r) = mset (waterWays (contribution (nodes r) el)) + mset (waterWays r')"
    unfolding f by simp
  have 4: "waterWays (contribution (nodes r) el) = [] \<longrightarrow> waterWays r = waterWays r'"
    unfolding f by simp
  have 5: "mset (waterPolygons r) = mset (waterPolygons (contribution (nodes r) el)) + mset (waterPolygons r')"
    unfolding f by simp
  have 6: "waterPolygons (contribution (nodes r) el) = [] \<longrightarrow> waterPolygons r = waterPolygons r'"
    unfolding f by simp
  have 7: "mset (parks r) = mset (parks (contribution (nodes r) el)) + mset (parks r')"
    unfolding f by simp
  have 8: "parks (contribution (nodes r) el) = [] \<longrightarrow> parks r = parks r'"
    unfolding f by simp
  show ?thesis
    by (rule exI [of _ r], rule exI [of _ r']) (intro conjI r r' n 1 2 3 4 5 6 7 8)
qed

text \<open>
  C5, as amended. For a way with at least two resolved points the first matching
  rule decides, in this order: a \<open>highway\<close> tag with a non-empty value gives one road of
  that subtype and nothing else, whatever the other tags; otherwise \<open>natural=water\<close> or a
  \<open>waterway\<close> tag with a non-empty value gives one water feature; otherwise
  \<open>leisure=park\<close> or \<open>landuse=grass\<close> gives at most one park; otherwise nothing. The
  scenario of two nodes and one way tagged \<open>highway=primary\<close> gives one road of subtype
  \<open>primary\<close> with two points, and no water and no park.
\<close>

theorem tag_precedence:
  assumes "el_type el = ''way''" and "el_nodes el = Some ids" and "el_tags el = Some tags"
    and "2 \<le> length (filter (\<lambda>i. nodeTable (xs @ el # ys) i \<noteq> None) ids)"
  shows "\<exists>r r'. parseOSMData \<lparr>elements = Some (xs @ el # ys)\<rparr> = Inr r
    \<and> parseOSMData \<lparr>elements = Some (xs @ ys)\<rparr> = Inr r'
    \<and> (if truthy (tags ''highway'') then
          mset (roads r) =
            add_mset \<lparr>coords = resolve (nodes r) ids, road_type = the (tags ''highway'')\<rparr>
              (mset (roads r'))
          \<and> waterWays r = waterWays r' \<and> waterPolygons r = waterPolygons r'
          \<and> parks r = parks r'
        else if tags ''natural'' = Some ''water'' \<or> truthy (tags ''waterway'') then
          roads r = roads r' \<and> parks r = parks r'
          \<and> mset (waterWays r) + mset (waterPolygons r) =
              add_mset \<lparr>coords = resolve (nodes r) ids\<rparr>
                (mset (waterWays r') + mset (waterPolygons r'))
        else if tags ''leisure'' = Some ''park'' \<or> tags ''landuse'' = Some ''grass'' then
          roads r = roads r' \<and> waterWays r = waterWays r'
          \<and> waterPolygons r = waterPolygons r'
          \<and> (parks r = parks r'
             \<or> mset (parks r) = add_mset \<lparr>coords = resolve (nodes r) ids\<rparr> (mset (parks r')))
        else r = r')
    \<and> parseOSMData
        \<lparr>elements = Some [node1, node2, wayOf [1, 2] [''highway'' \<mapsto> ''primary'']]\<rparr> =
       Inr \<lparr>roads = [\<lparr>coords = [point1, point2], road_type = ''primary''\<rparr>],
            waterWays = [], waterPolygons = [], parks = [],
            nodes = [1 \<mapsto> point1, 2 \<mapsto> point2]\<rparr>"
proof -
  from way_insert [OF assms(1), of xs ys] obtain r r' where
      r: "parseOSMData \<lparr>elements = Some (xs @ el # ys)\<rparr> = Inr r"
    and r': "parseOSMData \<lparr>elements = Some (xs @ ys)\<rparr> = Inr r'"
    and n: "nodes r = nodeTable (xs @ el # ys)" and n': "nodes r' = nodes r"
    and R: "mset (roads r) = mset (roads (contribution (nodes r) el)) + mset (roads r')"
      "roads (contribution (nodes r) el) = [] \<longrightarrow> roads r = roads r'"
    and W: "mset (waterWays r) = mset (waterWays (contribution (nodes r) el)) + mset (waterWays r')"
      "waterWays (contribution (nodes r) el) = [] \<longrightarrow> waterWays r = waterWays r'"
    and P: "mset (waterPolygons r) = mset (waterPolygons (contribution (nodes r) el)) + mset (waterPolygons r')"
      "waterPolygons (contribution (nodes r) el) = [] \<longrightarrow> waterPolygons r = waterPolygons r'"
    and K: "mset (parks r) = mset (parks (contribution (nodes r) el)) + mset (parks r')"
      "parks (contribution (nodes r) el) = [] \<longrightarrow> parks r = parks r'"
    by (elim exE conjE)
  have len: "2 \<le> length (resolve (nodes r) ids)"
    using assms(4) by (simp add: n resolve_filter)
  let ?highway = "truthy (tags ''highway'')"
  let ?water = "tags ''natural'' = Some ''water'' \<or> truthy (tags ''waterway'')"
  let ?park = "tags ''leisure'' = Some ''park'' \<or> tags ''landuse'' = Some ''grass''"
  have road: "mset (roads r) =
            add_mset \<lparr>coords = resolve (nodes r) ids, road_type = the (tags ''highway'')\<rparr>
              (mset (roads r'))
          \<and> waterWays r = waterWays r' \<and> waterPolygons r = waterPolygons r'
          \<and> parks r = parks r'" if "?highway"
    using R W P K by (simp add: contribution_road [OF assms(1-3) len that])
  have water: "roads r = roads r' \<and> parks r = parks r'
          \<and> mset (waterWays r) + mset (waterPolygons r) =
              add_mset \<lparr>coords = resolve (nodes r) ids\<rparr>
                (mset (waterWays r') + mset (waterPolygons r'))" if "\<not> ?highway" "?water"
    using R W P K by (simp add: contribution_water [OF assms(1-3) len that])
  have park: "roads r = roads r' \<and> waterWays r = waterWays r'
          \<and> waterPolygons r = waterPolygons r'
          \<and> (parks r = parks r'
             \<or> mset (parks r) = add_mset \<lparr>coords = resolve (nodes r) ids\<rparr> (mset (parks r')))"
    if "\<not> ?highway" "\<not> ?water" "?park"
    using R W P K by (simp add: contribution_park [OF assms(1-3) len that] emptyRegion_def)
  have none: "r = r'" if "\<not> ?highway" "\<not> ?water" "\<not> ?park"
    using R W P K n'
    by (intro region_eqI) (simp_all add: contribution_untagged [OF assms(3) that] emptyRegion_def)
  have rules: "if ?highway then
          mset (roads r) =
            add_mset \<lparr>coords = resolve (nodes r) ids, road_type = the (tags ''highway'')\<rparr>
              (mset (roads r'))
          \<and> waterWays r = waterWays r' \<and> waterPolygons r = waterPolygons r'
          \<and> parks r = parks r'
        else if ?water then
          roads r = roads r' \<and> parks r = parks r'
          \<and> mset (waterWays r) + mset (waterPolygons r) =
              add_mset \<lparr>coords = resolve (nodes r) ids\<rparr>
                (mset (waterWays r') + mset (waterPolygons r'))
        else if ?park then
          roads r = roads r' \<and> waterWays r = waterWays r'
          \<and> waterPolygons r = waterPolygons r'
          \<and> (parks r = parks r'
             \<or> mset (parks r) = add_mset \<lparr>coords = resolve (nodes r) ids\<rparr> (mset (parks r')))
        else r = r'"
  proof (cases ?highway)
    case True
    from road [OF True] True show ?thesis by simp
  next
    case h: False
    show ?thesis
    proof (cases ?water)
      case True
      from water [OF h True] h True show ?thesis by simp
    next
      case w: False
      show ?thesis
      proof (cases ?park)
        case True
        from park [OF h w True] h w True show ?thesis by simp
      next
        case False
        from none [OF h w False] h w False show ?thesis by simp
      qed
    qed
  qed
  have scenario: "parseOSMData
        \<lparr>elements = Some [node1, node2, wayOf [1, 2] [''highway'' \<mapsto> ''primary'']]\<rparr> =
       Inr \<lparr>roads = [\<lparr>coords = [point1, point2], road_type = ''primary''\<rparr>],
            waterWays = [], waterPolygons = [], parks = [],
            nodes = [1 \<mapsto> point1, 2 \<mapsto> point2]\<rparr>"
    by (simp add: node1_def node2_def wayOf_def point1_def point2_def
        parseOSMData_def classifyElement_def collectNode_def resolve_def truthy_def
        array_sort_def Let_def)
  show ?thesis
    by (rule exI [of _ r], rule exI [of _ r']) (intro conjI r r' rules scenario)
qed

theorem tag_precedence_witness:
  "el_type (wayOf [1, 2] [''highway'' \<mapsto> ''primary'', ''natural'' \<mapsto> ''water'']) = ''way''
   \<and> el_nodes (wayOf [1, 2] [''highway'' \<mapsto> ''primary'', ''natural'' \<mapsto> ''water'']) = Some [1, 2]
   \<and> el_tags (wayOf [1, 2] [''highway'' \<mapsto> ''primary'', ''natural'' \<mapsto> ''water''])
       = Some [''highway'' \<mapsto> ''primary'', ''natural'' \<mapsto> ''water'']
   \<and> 2 \<le> length (filter (\<lambda>i. nodeTable ([node1, node2]
            @ wayOf [1, 2] [''highway'' \<mapsto> ''primary'', ''natural'' \<mapsto> ''water''] # []) i \<noteq> None) [1, 2])
   \<and> (\<exists>r r'. parseOSMData \<lparr>elements = Some ([node1, node2]
            @ wayOf [1, 2] [''highway'' \<mapsto> ''primary'', ''natural'' \<mapsto> ''water''] # [])\<rparr> = Inr r
        \<and> parseOSMData \<lparr>elements = Some ([node1, node2] @ [])\<rparr> = Inr r'
        \<and> mset (roads r) =
            add_mset \<lparr>coords = resolve (nodes r) [1, 2], road_type = ''primary''\<rparr> (mset (roads r'))
        \<and> waterWays r = waterWays r' \<and> waterPolygons r = waterPolygons r'
        \<and> parks r = parks r')"
proof -
  let ?tags = "[''highway'' \<mapsto> ''primary'', ''natural'' \<mapsto> ''water'']"
  let ?w = "wayOf [1, 2] ?tags"
  have h1: "el_type ?w = ''way''" and h2: "el_nodes ?w = Some [1, 2]"
    and h3: "el_tags ?w = Some ?tags"
    by (simp_all add: wayOf_def)
  have h4: "2 \<le> length (filter (\<lambda>i. nodeTable ([node1, node2] @ ?w # []) i \<noteq> None) [1, 2])"
    by (simp add: nodeTable_def collectNode_def node1_def node2_def wayOf_def)
  have t: "truthy (?tags ''highway'')" and v: "the (?tags ''highway'') = ''primary''"
    by (simp_all add: truthy_def)
  from tag_precedence [OF h1 h2 h3 h4] obtain r r' where
      r: "parseOSMData \<lparr>elements = Some ([node1, node2] @ ?w # [])\<rparr> = Inr r"
    and r': "parseOSMData \<lparr>elements = Some ([node1, node2] @ [])\<rparr> = Inr r'"
    and c: "if truthy (?tags ''highway'') then
          mset (roads r) =
            add_mset \<lparr>coords = resolve (nodes r) [1, 2], road_type = the (?tags ''highway'')\<rparr>
              (mset (roads r'))
          \<and> waterWays r = waterWays r' \<and> waterPolygons r = waterPolygons r'
          \<and> parks r = parks r'
        else if ?tags ''natural'' = Some ''water'' \<or> truthy (?tags ''waterway'') then
          roads r = roads r' \<and> parks r = parks r'
          \<and> mset (waterWays r) + mset (waterPolygons r) =
              add_mset \<lparr>coords = resolve (nodes r) [1, 2]\<rparr>
                (mset (waterWays r') + mset (waterPolygons r'))
        else if ?tags ''leisure'' = Some ''park'' \<or> ?tags ''landuse'' = Some ''grass'' then
          roads r = roads r' \<and> waterWays r = waterWays r'
          \<and> waterPolygons r = waterPolygons r'
          \<and> (parks r = parks r'
             \<or> mset (parks r) = add_mset \<lparr>coords = resolve (nodes r) [1, 2]\<rparr> (mset (parks r')))
        else r = r'"
    by (elim exE conjE)
  from c have "mset (roads r) =
            add_mset \<lparr>coords = resolve (nodes r) [1, 2], road_type = ''primary''\<rparr> (mset (roads r'))
        \<and> waterWays r = waterWays r' \<and> waterPolygons r = waterPolygons r'
        \<and> parks r = parks r'"
    unfolding if_P [OF t] v .
  with h1 h2 h3 h4 r r' show ?thesis
    by (intro conjI exI [of _ r] exI [of _ r']) simp_all
qed

text \<open>
  C5 as stated fails: a way whose \<open>highway\<close> tag has the empty value has a \<open>highway\<close>
  tag, and with \<open>natural=water\<close> beside it the classifier makes it a water line, not a
  road.
\<close>

theorem tag_precedence_counterexample:
  "[''highway'' \<mapsto> [], ''natural'' \<mapsto> ''water''] ''highway'' = Some []
   \<and> parseOSMData
       \<lparr>elements = Some [node1, node2,
                         wayOf [1, 2] [''highway'' \<mapsto> [], ''natural'' \<mapsto> ''water'']]\<rparr> =
      Inr \<lparr>roads = [], waterWays = [\<lparr>coords = [point1, point2]\<rparr>], waterPolygons = [],
           parks = [], nodes = [1 \<mapsto> point1, 2 \<mapsto> point2]\<rparr>"
  by (simp add: node1_def node2_def wayOf_def point1_def point2_def
      parseOSMData_def classifyElement_def collectNode_def resolve_def truthy_def
      array_sort_def closedRing_def elemAt_def Let_def)

text \<open>
  C4. A way whose first member id differs from its last one adds no water polygon and
  no park. With at least two resolved points and no road subtype, a water-tagged way
  adds one water polygon when its first and last member ids are the same and one water
  line when they differ; a way tagged as a park and not as water adds one park when they
  are the same and nothing at all when they differ.
\<close>

theorem open_way_never_polygon:
  assumes "el_type el = ''way''" and "el_nodes el = Some ids" and "ids \<noteq> []"
  shows "\<exists>r r'. parseOSMData \<lparr>elements = Some (xs @ el # ys)\<rparr> = Inr r
    \<and> parseOSMData \<lparr>elements = Some (xs @ ys)\<rparr> = Inr r'
    \<and> (hd ids \<noteq> last ids \<longrightarrow> waterPolygons r = waterPolygons r' \<and> parks r = parks r')
    \<and> (\<forall>tags. el_tags el = Some tags \<and> 2 \<le> length (resolve (nodes r) ids)
          \<and> \<not> truthy (tags ''highway'') \<longrightarrow>
          (if tags ''natural'' = Some ''water'' \<or> truthy (tags ''waterway'') then
             (if hd ids = last ids
              then mset (waterPolygons r) =
                     add_mset \<lparr>coords = resolve (nodes r) ids\<rparr> (mset (waterPolygons r'))
                   \<and> waterWays r = waterWays r'
              else mset (waterWays r) =
                     add_mset \<lparr>coords = resolve (nodes r) ids\<rparr> (mset (waterWays r'))
                   \<and> waterPolygons r = waterPolygons r')
           else if tags ''leisure'' = Some ''park'' \<or> tags ''landuse'' = Some ''grass'' then
             (if hd ids = last ids
              then mset (parks r) = add_mset \<lparr>coords = resolve (nodes r) ids\<rparr> (mset (parks r'))
              else r = r')
           else r = r'))"
proof -
  from way_insert [OF assms(1), of xs ys] obtain r r' where
      r: "parseOSMData \<lparr>elements = Some (xs @ el # ys)\<rparr> = Inr r"
    and r': "parseOSMData \<lparr>elements = Some (xs @ ys)\<rparr> = Inr r'"
    and n: "nodes r = nodeTable (xs @ el # ys)" and n': "nodes r' = nodes r"
    and R: "mset (roads r) = mset (roads (contribution (nodes r) el)) + mset (roads r')"
      "roads (contribution (nodes r) el) = [] \<longrightarrow> roads r = roads r'"
    and W: "mset (waterWays r) = mset (waterWays (contribution (nodes r) el)) + mset (waterWays r')"
      "waterWays (contribution (nodes r) el) = [] \<longrightarrow> waterWays r = waterWays r'"
    and P: "mset (waterPolygons r) = mset (waterPolygons (contribution (nodes r) el)) + mset (waterPolygons r')"
      "waterPolygons (contribution (nodes r) el) = [] \<longrightarrow> waterPolygons r = waterPolygons r'"
    and K: "mset (parks r) = mset (parks (contribution (nodes r) el)) + mset (parks r')"
      "parks (contribution (nodes r) el) = [] \<longrightarrow> parks r = parks r'"
    by (elim exE conjE)
  have ring: "closedRing ids \<longleftrightarrow> hd ids = last ids"
    using assms(3) by (rule closedRing_hd_last)
  have 1: "hd ids \<noteq> last ids \<longrightarrow> waterPolygons r = waterPolygons r' \<and> parks r = parks r'"
  proof
    assume "hd ids \<noteq> last ids"
    then have "\<not> closedRing ids" by (simp add: ring)
    from contribution_open [OF assms(2) this, of "nodes r"] P(2) K(2)
    show "waterPolygons r = waterPolygons r' \<and> parks r = parks r'" by simp
  qed
  have 2: "\<forall>tags. el_tags el = Some tags \<and> 2 \<le> length (resolve (nodes r) ids)
          \<and> \<not> truthy (tags ''highway'') \<longrightarrow>
          (if tags ''natural'' = Some ''water'' \<or> truthy (tags ''waterway'') then
             (if hd ids = last ids
              then mset (waterPolygons r) =
                     add_mset \<lparr>coords = resolve (nodes r) ids\<rparr> (mset (waterPolygons r'))
                   \<and> waterWays r = waterWays r'
              else mset (waterWays r) =
                     add_mset \<lparr>coords = resolve (nodes r) ids\<rparr> (mset (waterWays r'))
                   \<and> waterPolygons r = waterPolygons r')
           else if tags ''leisure'' = Some ''park'' \<or> tags ''landuse'' = Some ''grass'' then
             (if hd ids = last ids
              then mset (parks r) = add_mset \<lparr>coords = resolve (nodes r) ids\<rparr> (mset (parks r'))
              else r = r')
           else r = r')"
  proof (intro allI impI, elim conjE)
    fix tags
    assume t: "el_tags el = Some tags" and len: "2 \<le> length (resolve (nodes r) ids)"
      and h: "\<not> truthy (tags ''highway'')"
    let ?water = "tags ''natural'' = Some ''water'' \<or> truthy (tags ''waterway'')"
    let ?park = "tags ''leisure'' = Some ''park'' \<or> tags ''landuse'' = Some ''grass''"
    show "if ?water then
             (if hd ids = last ids
              then mset (waterPolygons r) =
                     add_mset \<lparr>coords = resolve (nodes r) ids\<rparr> (mset (waterPolygons r'))
                   \<and> waterWays r = waterWays r'
              else mset (waterWays r) =
                     add_mset \<lparr>coords = resolve (nodes r) ids\<rparr> (mset (waterWays r'))
                   \<and> waterPolygons r = waterPolygons r')
           else if ?park then
             (if hd ids = last ids
              then mset (parks r) = add_mset \<lparr>coords = resolve (nodes r) ids\<rparr> (mset (parks r'))
              else r = r')
           else r = r'"
    proof (cases ?water)
      case True
      from contribution_water [OF assms(1,2) t len h True] R W P K True
      show ?thesis by (simp add: ring)
    next
      case w: False
      show ?thesis
      proof (cases ?park)
        case True
        have c: "contribution (nodes r) el =
          (if closedRing ids
           then \<lparr>roads = [], waterWays = [], waterPolygons = [],
                 parks = [\<lparr>coords = resolve (nodes r) ids\<rparr>], nodes = nodes r\<rparr>
           else emptyRegion (nodes r))"
          by (rule contribution_park [OF assms(1,2) t len h w True])
        show ?thesis
        proof (cases "hd ids = last ids")
          case True
          with c K(1) w \<open>?park\<close> show ?thesis by (simp add: ring)
        next
          case False
          with c have e: "contribution (nodes r) el = emptyRegion (nodes r)"
            by (simp add: ring)
          have "r = r'"
            using R W P K n' by (intro region_eqI) (simp_all add: e emptyRegion_def)
          with False w \<open>?park\<close> show ?thesis by simp
        qed
      next
        case False
        have e: "contribution (nodes r) el = emptyRegion (nodes r)"
          by (rule contribution_untagged [OF t h w False])
        have "r = r'"
          using R W P K n' by (intro region_eqI) (simp_all add: e emptyRegion_def)
        with w False show ?thesis by simp
      qed
    qed
  qed
  show ?thesis
    by (rule exI [of _ r], rule exI [of _ r']) (intro conjI r r' 1 2)
qed

theorem open_way_never_polygon_witness:
  "el_type (wayOf [1, 2] [''waterway'' \<mapsto> ''river'']) = ''way''
   \<and> el_nodes (wayOf [1, 2] [''waterway'' \<mapsto> ''river'']) = Some [1, 2]
   \<and> [1, 2] \<noteq> ([] :: int list) \<and> hd [1, 2 :: int] \<noteq> last [1, 2]
   \<and> (\<exists>r r'. parseOSMData \<lparr>elements = Some ([node1, node2]
            @ wayOf [1, 2] [''waterway'' \<mapsto> ''river''] # [])\<rparr> = Inr r
        \<and> parseOSMData \<lparr>elements = Some ([node1, node2] @ [])\<rparr> = Inr r'
        \<and> el_tags (wayOf [1, 2] [''waterway'' \<mapsto> ''river'']) = Some [''waterway'' \<mapsto> ''river'']
        \<and> 2 \<le> length (resolve (nodes r) [1, 2])
        \<and> \<not> truthy ([''waterway'' \<mapsto> ''river''] ''highway'')
        \<and> waterPolygons r = waterPolygons r' \<and> parks r = parks r'
        \<and> mset (waterWays r) = add_mset \<lparr>coords = resolve (nodes r) [1, 2]\<rparr> (mset (waterWays r'))
        \<and> waterWays r = [\<lparr>coords = [point1, point2]\<rparr>])"
proof -
  let ?tags = "[''waterway'' \<mapsto> ''river'']"
  let ?w = "wayOf [1, 2] ?tags"
  let ?X = "\<lparr>roads = [], waterWays = [\<lparr>coords = [point1, point2]\<rparr>], waterPolygons = [],
               parks = [], nodes = [1 \<mapsto> point1, 2 \<mapsto> point2]\<rparr>"
  have h1: "el_type ?w = ''way''" and h2: "el_nodes ?w = Some [1, 2]"
    and h5: "el_tags ?w = Some ?tags"
    by (simp_all add: wayOf_def)
  have h3: "[1, 2] \<noteq> ([] :: int list)" and h4: "hd [1, 2 :: int] \<noteq> last [1, 2]"
    by simp_all
  from open_way_never_polygon [OF h1 h2 h3, of "[node1, node2]" "[]"] obtain r r' where
      r: "parseOSMData \<lparr>elements = Some ([node1, node2] @ ?w # [])\<rparr> = Inr r"
    and r': "parseOSMData \<lparr>elements = Some ([node1, node2] @ [])\<rparr> = Inr r'"
    and c: "hd [1, 2 :: int] \<noteq> last [1, 2] \<longrightarrow> waterPolygons r = waterPolygons r' \<and> parks r = parks r'"
    and d: "\<forall>tags. el_tags ?w = Some tags \<and> 2 \<le> length (resolve (nodes r) [1, 2])
          \<and> \<not> truthy (tags ''highway'') \<longrightarrow>
          (if tags ''natural'' = Some ''water'' \<or> truthy (tags ''waterway'') then
             (if hd [1, 2 :: int] = last [1, 2]
              then mset (waterPolygons r) =
                     add_mset \<lparr>coords = resolve (nodes r) [1, 2]\<rparr> (mset (waterPolygons r'))
                   \<and> waterWays r = waterWays r'
              else mset (waterWays r) =
                     add_mset \<lparr>coords = resolve (nodes r) [1, 2]\<rparr> (mset (waterWays r'))
                   \<and> waterPolygons r = waterPolygons r')
           else if tags ''leisure'' = Some ''park'' \<or> tags ''landuse'' = Some ''grass'' then
             (if hd [1, 2 :: int] = last [1, 2]
              then mset (parks r) = add_mset \<lparr>coords = resolve (nodes r) [1, 2]\<rparr> (mset (parks r'))
              else r = r')
           else r = r')"
    by - (erule exE, erule exE, elim conjE)
  from c h4 have p: "waterPolygons r = waterPolygons r'" "parks r = parks r'"
    by blast+
  have "parseOSMData \<lparr>elements = Some ([node1, node2] @ ?w # [])\<rparr> = Inr ?X"
    by (simp add: node1_def node2_def wayOf_def point1_def point2_def
        parseOSMData_def classifyElement_def collectNode_def resolve_def truthy_def
        array_sort_def closedRing_def elemAt_def Let_def)
  with r have rv: "r = ?X" by simp
  have w: "waterWays r = [\<lparr>coords = [point1, point2]\<rparr>]"
    unfolding rv by simp
  have len: "2 \<le> length (resolve (nodes r) [1, 2])"
    unfolding rv by (simp add: resolve_def)
  have nh: "\<not> truthy (?tags ''highway'')"
    by (simp add: truthy_def)
  have wt: "?tags ''natural'' = Some ''water'' \<or> truthy (?tags ''waterway'')"
    by (simp add: truthy_def)
  from d [rule_format, of ?tags] h5 len nh
  have "if ?tags ''natural'' = Some ''water'' \<or> truthy (?tags ''waterway'') then
             (if hd [1, 2 :: int] = last [1, 2]
              then mset (waterPolygons r) =
                     add_mset \<lparr>coords = resolve (nodes r) [1, 2]\<rparr> (mset (waterPolygons r'))
                   \<and> waterWays r = waterWays r'
              else mset (waterWays r) =
                     add_mset \<lparr>coords = resolve (nodes r) [1, 2]\<rparr> (mset (waterWays r'))
                   \<and> waterPolygons r = waterPolygons r')
           else if ?tags ''leisure'' = Some ''park'' \<or> ?tags ''landuse'' = Some ''grass'' then
             (if hd [1, 2 :: int] = last [1, 2]
              then mset (parks r) = add_mset \<lparr>coords = resolve (nodes r) [1, 2]\<rparr> (mset (parks r'))
              else r = r')
           else r = r'"
    by blast
  then have m: "mset (waterWays r) =
      add_mset \<lparr>coords = resolve (nodes r) [1, 2]\<rparr> (mset (waterWays r'))"
    unfolding if_P [OF wt] if_not_P [OF h4] by (rule conjunct1)
  from h1 h2 h3 h4 h5 r r' len nh p m w show ?thesis
    by (intro conjI exI [of _ r] exI [of _ r'])
qed

subsection \<open>The endpoint loop\<close>

lemma tryServer_cases:
  assumes "fetch u q (world s) = (res, w)"
  shows "tryServer fetch q u s = (handleResponse res, s\<lparr>world := w, requested := requested s @ [u]\<rparr>)"
  using assms by (simp add: tryServer_def doFetch_def)

lemma tryServers_first_success:
  assumes "k < length servers"
    and "\<forall>j<k. isl (handleResponse (responses fetch q servers (world s) ! j))"
    and "handleResponse (responses fetch q servers (world s) ! k) = Inr p"
  shows "fst (tryServers fetch q servers lastError s) = Inr p
    \<and> requested (snd (tryServers fetch q servers lastError s)) = requested s @ take (Suc k) servers"
  using assms
proof (induction servers arbitrary: k s lastError)
  case Nil
  then show ?case by simp
next
  case (Cons u us)
  obtain res w where f: "fetch u q (world s) = (res, w)"
    by (cases "fetch u q (world s)")
  let ?s1 = "s\<lparr>world := w, requested := requested s @ [u]\<rparr>"
  have t: "tryServer fetch q u s = (handleResponse res, ?s1)"
    using f by (rule tryServer_cases)
  have rs: "responses fetch q (u # us) (world s) = res # responses fetch q us w"
    using f by simp
  show ?case
  proof (cases k)
    case 0
    with Cons.prems(3) rs have "handleResponse res = Inr p" by simp
    with t 0 show ?thesis by simp
  next
    case (Suc k')
    from Cons.prems(2) Suc rs have "isl (handleResponse res)"
      by (metis nth_Cons_0 zero_less_Suc)
    then obtain e where e: "handleResponse res = Inl e"
      by (cases "handleResponse res") simp_all
    let ?s2 = "?s1\<lparr>console := console ?s1 @
                 [Warn (''Overpass server '' @ u @ '' failed:'') (message e)]\<rparr>"
    have step: "tryServers fetch q (u # us) lastError s = tryServers fetch q us (Some e) ?s2"
      using t e by simp
    have k': "k' < length us" using Cons.prems(1) Suc by simp
    have fails: "\<forall>j<k'. isl (handleResponse (responses fetch q us (world ?s2) ! j))"
    proof (intro allI impI)
      fix j assume "j < k'"
      then have "Suc j < k" using Suc by simp
      with Cons.prems(2) have "isl (handleResponse (responses fetch q (u # us) (world s) ! Suc j))"
        by blast
      then have "isl (handleResponse ((res # responses fetch q us w) ! Suc j))"
        by (simp only: rs)
      then show "isl (handleResponse (responses fetch q us (world ?s2) ! j))"
        by simp
    qed
    have "handleResponse ((res # responses fetch q us w) ! Suc k') = Inr p"
      using Cons.prems(3) Suc by (simp only: rs)
    then have succ: "handleResponse (responses fetch q us (world ?s2) ! k') = Inr p"
      by simp
    from Cons.IH [OF k' fails succ, of "Some e"] Suc show ?thesis
      unfolding step by simp
  qed
qed

lemma tryServers_all_fail:
  assumes "\<forall>j<length servers. isl (handleResponse (responses fetch q servers (world s) ! j))"
  shows "fst (tryServers fetch q servers lastError s) =
      Inl (allServersFailed
             (if servers = [] then lastError
              else Some (projl (handleResponse (last (responses fetch q servers (world s)))))))
    \<and> requested (snd (tryServers fetch q servers lastError s)) = requested s @ servers"
  using assms
proof (induction servers arbitrary: s lastError)
  case Nil
  then show ?case by simp
next
  case (Cons u us)
  obtain res w where f: "fetch u q (world s) = (res, w)"
    by (cases "fetch u q (world s)")
  let ?s1 = "s\<lparr>world := w, requested := requested s @ [u]\<rparr>"
  have t: "tryServer fetch q u s = (handleResponse res, ?s1)"
    using f by (rule tryServer_cases)
  have rs: "responses fetch q (u # us) (world s) = res # responses fetch q us w"
    using f by simp
  from Cons.prems rs have "isl (handleResponse res)"
    by (metis length_greater_0_conv list.discI nth_Cons_0)
  then obtain e where e: "handleResponse res = Inl e"
    by (cases "handleResponse res") simp_all
  let ?s2 = "?s1\<lparr>console := console ?s1 @
               [Warn (''Overpass server '' @ u @ '' failed:'') (message e)]\<rparr>"
  have step: "tryServers fetch q (u # us) lastError s = tryServers fetch q us (Some e) ?s2"
    using t e by simp
  have fails: "\<forall>j<length us. isl (handleResponse (responses fetch q us (world ?s2) ! j))"
  proof (intro allI impI)
    fix j assume "j < length us"
    then have "Suc j < length (u # us)" by simp
    with Cons.prems have "isl (handleResponse (responses fetch q (u # us) (world s) ! Suc j))"
      by blast
    then have "isl (handleResponse ((res # responses fetch q us w) ! Suc j))"
      by (simp only: rs)
    then show "isl (handleResponse (responses fetch q us (world ?s2) ! j))"
      by simp
  qed
  have len: "length (responses fetch q xs v) = length xs" for xs v
    by (induction xs arbitrary: v) (simp_all split: prod.splits)
  have ne: "us \<noteq> [] \<Longrightarrow> responses fetch q us w \<noteq> []"
    using len [of us w] by auto
  have lst: "last (responses fetch q (u # us) (world s)) =
      (if us = [] then res else last (responses fetch q us w))"
    unfolding rs using ne by simp
  from Cons.IH [OF fails, of "Some e"] show ?case
    unfolding step lst by (simp add: e)
qed


lemma length_responses: "length (responses fetch q servers w) = length servers"
  by (induction servers arbitrary: w) (simp_all split: prod.splits)

lemma handleResponse_Inr:
  "handleResponse res = Inr p \<longleftrightarrow>
     (\<exists>response data. res = Inr response \<and> 200 \<le> status response \<and> status response \<le> 299
        \<and> json response = Inr data \<and> parseOSMData data = Inr p)"
  by (auto simp: handleResponse_def ok_def split: sum.splits)

text \<open>
  C2. With the outcomes of the endpoints of \<^verbatim>\<open>CONFIG.OVERPASS_SERVERS\<close> asked in list
  order: if the endpoint at position \<open>k\<close> is the first whose outcome is a parsed payload,
  \<^verbatim>\<open>fetchOSMData\<close> returns that payload and has requested exactly the first \<open>k + 1\<close>
  endpoints, each once and in order; if every endpoint fails, it throws the one error of
  line 185, made from the error recorded at the last endpoint, and has requested every
  endpoint once and in order. An outcome is a parsed payload exactly when the call
  resolved with a status from 200 to 299, the body was JSON and \<^verbatim>\<open>parseOSMData\<close>
  returned; the thrown error carries the recorded error's message in brackets.
\<close>

theorem endpoint_failover:
  "(\<forall>k p. k < length (OVERPASS_SERVERS cfg)
       \<and> (\<forall>j<k. isl (outcomes fetch (lat, lon, radiusMeters) (OVERPASS_SERVERS cfg) (world s) ! j))
       \<and> outcomes fetch (lat, lon, radiusMeters) (OVERPASS_SERVERS cfg) (world s) ! k = Inr p
     \<longrightarrow> fst (fetchOSMData cfg fetch lat lon radiusMeters s) = Inr p
       \<and> requested (snd (fetchOSMData cfg fetch lat lon radiusMeters s)) =
           requested s @ take (Suc k) (OVERPASS_SERVERS cfg))
   \<and> (OVERPASS_SERVERS cfg \<noteq> []
       \<and> (\<forall>j<length (OVERPASS_SERVERS cfg).
             isl (outcomes fetch (lat, lon, radiusMeters) (OVERPASS_SERVERS cfg) (world s) ! j))
     \<longrightarrow> fst (fetchOSMData cfg fetch lat lon radiusMeters s) =
           Inl (allServersFailed (Some (projl (last
             (outcomes fetch (lat, lon, radiusMeters) (OVERPASS_SERVERS cfg) (world s))))))
       \<and> requested (snd (fetchOSMData cfg fetch lat lon radiusMeters s)) =
           requested s @ OVERPASS_SERVERS cfg)
   \<and> (\<forall>res p. handleResponse res = Inr p \<longleftrightarrow>
         (\<exists>response data. res = Inr response \<and> 200 \<le> status response \<and> status response \<le> 299
            \<and> json response = Inr data \<and> parseOSMData data = Inr p))
   \<and> (\<forall>e. message e \<noteq> [] \<longrightarrow>
         message (allServersFailed (Some e)) =
           ''Failed to fetch map data. Please try again in a moment. ('' @ message e @ '')'')"
proof (intro conjI allI impI)
  fix k p
  let ?servers = "OVERPASS_SERVERS cfg"
  let ?q = "(lat, lon, radiusMeters)"
  assume a: "k < length ?servers
       \<and> (\<forall>j<k. isl (outcomes fetch ?q ?servers (world s) ! j))
       \<and> outcomes fetch ?q ?servers (world s) ! k = Inr p"
  then have k: "k < length ?servers" by simp
  have 1: "\<forall>j<k. isl (handleResponse (responses fetch ?q ?servers (world s) ! j))"
  proof (intro allI impI)
    fix j assume j: "j < k"
    with a have "isl (outcomes fetch ?q ?servers (world s) ! j)" by simp
    moreover from j k have "j < length (responses fetch ?q ?servers (world s))"
      by (simp add: length_responses)
    ultimately show "isl (handleResponse (responses fetch ?q ?servers (world s) ! j))"
      by (simp add: outcomes_def)
  qed
  have 2: "handleResponse (responses fetch ?q ?servers (world s) ! k) = Inr p"
    using a k by (simp add: outcomes_def length_responses)
  from tryServers_first_success [OF k 1 2, of None]
  show "fst (fetchOSMData cfg fetch lat lon radiusMeters s) = Inr p"
    and "requested (snd (fetchOSMData cfg fetch lat lon radiusMeters s)) =
           requested s @ take (Suc k) ?servers"
    by (simp_all add: fetchOSMData_def)
next
  let ?servers = "OVERPASS_SERVERS cfg"
  let ?q = "(lat, lon, radiusMeters)"
  assume a: "?servers \<noteq> []
       \<and> (\<forall>j<length ?servers. isl (outcomes fetch ?q ?servers (world s) ! j))"
  have 1: "\<forall>j<length ?servers. isl (handleResponse (responses fetch ?q ?servers (world s) ! j))"
  proof (intro allI impI)
    fix j assume j: "j < length ?servers"
    with a have "isl (outcomes fetch ?q ?servers (world s) ! j)" by simp
    with j show "isl (handleResponse (responses fetch ?q ?servers (world s) ! j))"
      by (simp add: outcomes_def length_responses)
  qed
  have ne: "responses fetch ?q ?servers (world s) \<noteq> []"
    using a length_responses [of fetch ?q ?servers "world s"] by auto
  from tryServers_all_fail [OF 1, of None] a ne
  show "fst (fetchOSMData cfg fetch lat lon radiusMeters s) =
           Inl (allServersFailed (Some (projl (last (outcomes fetch ?q ?servers (world s))))))"
    and "requested (snd (fetchOSMData cfg fetch lat lon radiusMeters s)) =
           requested s @ ?servers"
    by (simp_all add: fetchOSMData_def outcomes_def last_map)
next
  fix res p
  show "handleResponse res = Inr p \<longleftrightarrow>
         (\<exists>response data. res = Inr response \<and> 200 \<le> status response \<and> status response \<le> 299
            \<and> json response = Inr data \<and> parseOSMData data = Inr p)"
    by (rule handleResponse_Inr)
next
  fix e :: js_error
  assume "message e \<noteq> []"
  then show "message (allServersFailed (Some e)) =
           ''Failed to fetch map data. Please try again in a moment. ('' @ message e @ '')''"
    by (simp add: allServersFailed_def)
qed

lemma decimalDigits_503: "decimalDigits 503 = ''503''"
  by code_simp

theorem endpoint_failover_witness:
  "fst (fetchOSMData CONFIG flakyFetch 52 13 1000 initialState) =
     Inr \<lparr>roads = [\<lparr>coords = [point1, point2], road_type = ''primary''\<rparr>],
          waterWays = [], waterPolygons = [], parks = [],
          nodes = [1 \<mapsto> point1, 2 \<mapsto> point2]\<rparr>
   \<and> requested (snd (fetchOSMData CONFIG flakyFetch 52 13 1000 initialState)) =
       OVERPASS_SERVERS CONFIG
   \<and> fst (fetchOSMData CONFIG deadFetch 52 13 1000 initialState) =
       Inl (JsError ''Error''
         ''Failed to fetch map data. Please try again in a moment. (Server returned 503)'')
   \<and> requested (snd (fetchOSMData CONFIG deadFetch 52 13 1000 initialState)) =
       OVERPASS_SERVERS CONFIG"
proof -
  let ?R = "\<lparr>roads = [\<lparr>coords = [point1, point2], road_type = ''primary''\<rparr>],
          waterWays = [], waterPolygons = [], parks = [],
          nodes = [1 \<mapsto> point1, 2 \<mapsto> point2]\<rparr>"
  let ?servers = "OVERPASS_SERVERS CONFIG"
  have len: "length ?servers = 3"
    by (simp add: CONFIG_def)
  have p: "parseOSMData \<lparr>elements = Some [node1, node2, wayOf [1, 2] [''highway'' \<mapsto> ''primary'']]\<rparr>
      = Inr ?R"
    by (simp add: node1_def node2_def wayOf_def point1_def point2_def
        parseOSMData_def classifyElement_def collectNode_def resolve_def truthy_def
        array_sort_def Let_def)
  have o: "outcomes flakyFetch (52, 13, 1000) ?servers (world initialState) =
      [Inl (JsError ''TypeError'' ''Failed to fetch''),
       Inl (JsError ''Error'' (''Server returned '' @ decimalDigits 504)),
       Inr ?R]"
    by (simp add: outcomes_def CONFIG_def initialState_def flakyFetch_def handleResponse_def
        ok_def p)
  have h: "2 < length ?servers
       \<and> (\<forall>j<2. isl (outcomes flakyFetch (52, 13, 1000) ?servers (world initialState) ! j))
       \<and> outcomes flakyFetch (52, 13, 1000) ?servers (world initialState) ! 2 = Inr ?R"
    unfolding o len by (simp add: less_Suc_eq numeral_2_eq_2)
  have d: "outcomes deadFetch (52, 13, 1000) ?servers (world initialState) =
      [Inl (JsError ''TypeError'' ''Failed to fetch''),
       Inl (JsError ''TypeError'' ''Failed to fetch''),
       Inl (JsError ''Error'' ''Server returned 503'')]"
    by (simp add: outcomes_def CONFIG_def initialState_def deadFetch_def handleResponse_def
        ok_def decimalDigits_503)
  have g: "?servers \<noteq> []
       \<and> (\<forall>j<length ?servers.
             isl (outcomes deadFetch (52, 13, 1000) ?servers (world initialState) ! j))"
    unfolding d len by (simp add: less_Suc_eq numeral_3_eq_3) (simp add: CONFIG_def)
  note T = endpoint_failover [of CONFIG flakyFetch 52 13 1000 initialState]
  note U = endpoint_failover [of CONFIG deadFetch 52 13 1000 initialState]
  from T have "\<forall>k p. k < length ?servers
       \<and> (\<forall>j<k. isl (outcomes flakyFetch (52, 13, 1000) ?servers (world initialState) ! j))
       \<and> outcomes flakyFetch (52, 13, 1000) ?servers (world initialState) ! k = Inr p
     \<longrightarrow> fst (fetchOSMData CONFIG flakyFetch 52 13 1000 initialState) = Inr p
       \<and> requested (snd (fetchOSMData CONFIG flakyFetch 52 13 1000 initialState)) =
           requested initialState @ take (Suc k) ?servers"
    by (rule conjunct1)
  from this [rule_format, of 2 ?R, OF h]
  have 1: "fst (fetchOSMData CONFIG flakyFetch 52 13 1000 initialState) = Inr ?R"
    and 2: "requested (snd (fetchOSMData CONFIG flakyFetch 52 13 1000 initialState)) = ?servers"
    by (simp_all add: len initialState_def)
  from U have "?servers \<noteq> []
       \<and> (\<forall>j<length ?servers.
             isl (outcomes deadFetch (52, 13, 1000) ?servers (world initialState) ! j))
     \<longrightarrow> fst (fetchOSMData CONFIG deadFetch 52 13 1000 initialState) =
           Inl (allServersFailed (Some (projl (last
             (outcomes deadFetch (52, 13, 1000) ?servers (world initialState))))))
       \<and> requested (snd (fetchOSMData CONFIG deadFetch 52 13 1000 initialState)) =
           requested initialState @ ?servers"
    by (elim conjE)
  from this [rule_format, OF g]
  have 3: "fst (fetchOSMData CONFIG deadFetch 52 13 1000 initialState) =
       Inl (JsError ''Error''
         ''Failed to fetch map data. Please try again in a moment. (Server returned 503)'')"
    and 4: "requested (snd (fetchOSMData CONFIG deadFetch 52 13 1000 initialState)) = ?servers"
    unfolding d by (simp_all add: allServersFailed_def initialState_def)
  from 1 2 3 4 show ?thesis by (intro conjI)
qed

subsection \<open>Theme loading\<close>

text \<open>
  C3, as amended. When the theme file is fetched with a success status and its body
  parses, \<^verbatim>\<open>loadTheme\<close> returns the parsed object as it is and makes it the current
  theme, whatever keys it has, and writes nothing to the console. When the call is
  rejected, the status is not a success or the body does not parse, it returns the fixed
  fallback theme, whole, makes it the current theme and writes one error to the console.
  In both cases it returns.
\<close>

theorem theme_fallback:
  "(\<forall>response theme w.
       fetch (''themes/'' @ themeName @ ''.json'') () (world s) = (Inr response, w)
       \<and> 200 \<le> status response \<and> status response \<le> 299 \<and> json response = Inr theme
     \<longrightarrow> fst (loadTheme fetch themeName s) = theme
       \<and> currentTheme (snd (loadTheme fetch themeName s)) = Some theme
       \<and> console (snd (loadTheme fetch themeName s)) = console s)
   \<and> (\<forall>res w.
       fetch (''themes/'' @ themeName @ ''.json'') () (world s) = (res, w)
       \<and> (isl res \<or> status (projr res) < 200 \<or> 299 < status (projr res)
            \<or> isl (json (projr res)))
     \<longrightarrow> fst (loadTheme fetch themeName s) = fallbackTheme
       \<and> currentTheme (snd (loadTheme fetch themeName s)) = Some fallbackTheme
       \<and> (\<exists>e. console (snd (loadTheme fetch themeName s)) =
                console s @ [Error ''Error loading theme:'' e]))
   \<and> fallbackTheme =
       [''name'' \<mapsto> ''Default'', ''bg'' \<mapsto> ''#FFFFFF'', ''text'' \<mapsto> ''#000000'',
        ''gradient_color'' \<mapsto> ''#FFFFFF'', ''water'' \<mapsto> ''#C0C0C0'', ''parks'' \<mapsto> ''#F0F0F0'',
        ''road_motorway'' \<mapsto> ''#0A0A0A'', ''road_primary'' \<mapsto> ''#1A1A1A'',
        ''road_secondary'' \<mapsto> ''#2A2A2A'', ''road_tertiary'' \<mapsto> ''#3A3A3A'',
        ''road_residential'' \<mapsto> ''#4A4A4A'', ''road_default'' \<mapsto> ''#3A3A3A'']"
proof (intro conjI allI impI)
  fix response theme w
  assume a: "fetch (''themes/'' @ themeName @ ''.json'') () (world s) = (Inr response, w)
       \<and> 200 \<le> status response \<and> status response \<le> 299 \<and> json response = Inr theme"
  then have "fetchTheme fetch themeName s =
      (Inr theme, s\<lparr>world := w, requested := requested s @ [''themes/'' @ themeName @ ''.json'']\<rparr>)"
    by (simp add: fetchTheme_def doFetch_def ok_def)
  then show "fst (loadTheme fetch themeName s) = theme"
    and "currentTheme (snd (loadTheme fetch themeName s)) = Some theme"
    and "console (snd (loadTheme fetch themeName s)) = console s"
    by (simp_all add: loadTheme_def)
next
  fix res w
  assume a: "fetch (''themes/'' @ themeName @ ''.json'') () (world s) = (res, w)
       \<and> (isl res \<or> status (projr res) < 200 \<or> 299 < status (projr res)
            \<or> isl (json (projr res)))"
  let ?s1 = "s\<lparr>world := w, requested := requested s @ [''themes/'' @ themeName @ ''.json'']\<rparr>"
  from a have "\<exists>e. fetchTheme fetch themeName s = (Inl e, ?s1)"
    by (cases res) (auto simp: fetchTheme_def doFetch_def ok_def isl_def)
  then obtain e where e: "fetchTheme fetch themeName s = (Inl e, ?s1)" ..
  then show "fst (loadTheme fetch themeName s) = fallbackTheme"
    and "currentTheme (snd (loadTheme fetch themeName s)) = Some fallbackTheme"
    by (simp_all add: loadTheme_def)
  from e have "console (snd (loadTheme fetch themeName s)) =
                console s @ [Error ''Error loading theme:'' e]"
    by (simp add: loadTheme_def)
  then show "\<exists>e. console (snd (loadTheme fetch themeName s)) =
                console s @ [Error ''Error loading theme:'' e]" ..
next
  show "fallbackTheme =
       [''name'' \<mapsto> ''Default'', ''bg'' \<mapsto> ''#FFFFFF'', ''text'' \<mapsto> ''#000000'',
        ''gradient_color'' \<mapsto> ''#FFFFFF'', ''water'' \<mapsto> ''#C0C0C0'', ''parks'' \<mapsto> ''#F0F0F0'',
        ''road_motorway'' \<mapsto> ''#0A0A0A'', ''road_primary'' \<mapsto> ''#1A1A1A'',
        ''road_secondary'' \<mapsto> ''#2A2A2A'', ''road_tertiary'' \<mapsto> ''#3A3A3A'',
        ''road_residential'' \<mapsto> ''#4A4A4A'', ''road_default'' \<mapsto> ''#3A3A3A'']"
    by (simp only: fallbackTheme_def)
qed

theorem theme_fallback_witness:
  "fst (loadTheme notFoundFetch ''noir'' initialState) = fallbackTheme
   \<and> currentTheme (snd (loadTheme notFoundFetch ''noir'' initialState)) = Some fallbackTheme
   \<and> fst (loadTheme noWaterFetch ''noir'' initialState) = noWaterTheme
   \<and> console (snd (loadTheme noWaterFetch ''noir'' initialState)) = []"
proof -
  note T = theme_fallback [of notFoundFetch "''noir''" initialState]
  note U = theme_fallback [of noWaterFetch "''noir''" initialState]
  let ?r = "Inr \<lparr>status = 404, json = Inl (JsError ''SyntaxError'' ''Unexpected token <'')\<rparr>
              :: js_error + (string \<rightharpoonup> string) response"
  let ?p = "\<lparr>status = 200, json = Inr noWaterTheme\<rparr> :: (string \<rightharpoonup> string) response"
  have h: "notFoundFetch (''themes/'' @ ''noir'' @ ''.json'') () (world initialState) = (?r, 1)
       \<and> (isl ?r \<or> status (projr ?r) < 200 \<or> 299 < status (projr ?r) \<or> isl (json (projr ?r)))"
    by (simp add: notFoundFetch_def initialState_def)
  have g: "noWaterFetch (''themes/'' @ ''noir'' @ ''.json'') () (world initialState) = (Inr ?p, 1)
       \<and> 200 \<le> status ?p \<and> status ?p \<le> 299 \<and> json ?p = Inr noWaterTheme"
    by (simp add: noWaterFetch_def initialState_def)
  from T have "\<forall>res w.
       notFoundFetch (''themes/'' @ ''noir'' @ ''.json'') () (world initialState) = (res, w)
       \<and> (isl res \<or> status (projr res) < 200 \<or> 299 < status (projr res)
            \<or> isl (json (projr res)))
     \<longrightarrow> fst (loadTheme notFoundFetch ''noir'' initialState) = fallbackTheme
       \<and> currentTheme (snd (loadTheme notFoundFetch ''noir'' initialState)) = Some fallbackTheme
       \<and> (\<exists>e. console (snd (loadTheme notFoundFetch ''noir'' initialState)) =
                console initialState @ [Error ''Error loading theme:'' e])"
    by (elim conjE)
  from this [rule_format, OF h]
  have 1: "fst (loadTheme notFoundFetch ''noir'' initialState) = fallbackTheme"
    and 2: "currentTheme (snd (loadTheme notFoundFetch ''noir'' initialState)) = Some fallbackTheme"
    by simp_all
  from U have "\<forall>response theme w.
       noWaterFetch (''themes/'' @ ''noir'' @ ''.json'') () (world initialState) = (Inr response, w)
       \<and> 200 \<le> status response \<and> status response \<le> 299 \<and> json response = Inr theme
     \<longrightarrow> fst (loadTheme noWaterFetch ''noir'' initialState) = theme
       \<and> currentTheme (snd (loadTheme noWaterFetch ''noir'' initialState)) = Some theme
       \<and> console (snd (loadTheme noWaterFetch ''noir'' initialState)) = console initialState"
    by (elim conjE)
  from this [rule_format, OF g]
  have 3: "fst (loadTheme noWaterFetch ''noir'' initialState) = noWaterTheme"
    and 4: "console (snd (loadTheme noWaterFetch ''noir'' initialState)) = []"
    by (simp_all add: initialState_def)
  from 1 2 3 4 show ?thesis by (intro conjI)
qed

text \<open>
  C3 as stated fails: a theme that parses but has no \<open>water\<close> key is not replaced by
  the fallback theme, and nothing is reported.
\<close>

theorem theme_fallback_counterexample:
  "noWaterTheme ''water'' = None
   \<and> fst (loadTheme noWaterFetch ''noir'' initialState) = noWaterTheme
   \<and> fst (loadTheme noWaterFetch ''noir'' initialState) \<noteq> fallbackTheme
   \<and> fst (loadTheme noWaterFetch ''noir'' initialState) ''water'' = None
   \<and> currentTheme (snd (loadTheme noWaterFetch ''noir'' initialState)) = Some noWaterTheme
   \<and> console (snd (loadTheme noWaterFetch ''noir'' initialState)) = []"
proof -
  have w: "noWaterTheme ''water'' = None"
    by (simp add: noWaterTheme_def)
  have f: "fallbackTheme ''water'' = Some ''#C0C0C0''"
    by (simp add: fallbackTheme_def)
  have l: "loadTheme noWaterFetch ''noir'' initialState =
      (noWaterTheme, \<lparr>world = 1, requested = [''themes/noir.json''], console = [],
                      currentTheme = Some noWaterTheme\<rparr>)"
    by (simp add: loadTheme_def fetchTheme_def doFetch_def noWaterFetch_def initialState_def ok_def)
  have ne: "noWaterTheme \<noteq> fallbackTheme"
  proof
    assume "noWaterTheme = fallbackTheme"
    then have "noWaterTheme ''water'' = fallbackTheme ''water''" by simp
    with w f show False by simp
  qed
  from w l ne show ?thesis by simp
qed

subsection \<open>The coordinate line\<close>

lemma digitChar_0: "digitChar 0 = CHR ''0''"
  by code_simp

lemma decimalDigits_small: "n < 10 \<Longrightarrow> decimalDigits n = [digitChar n]"
  by (simp add: decimalDigits.simps [of n])

lemma decimalDigits_step:
  "10 \<le> n \<Longrightarrow> decimalDigits n = decimalDigits (n div 10) @ [digitChar (n mod 10)]"
  by (simp add: decimalDigits.simps [of n])

lemma length_decimalDigits_pos: "0 < length (decimalDigits n)"
  by (cases "n < 10") (simp_all add: decimalDigits_small decimalDigits_step)

lemma decimalDigits_last4:
  assumes "10000 \<le> n"
  shows "decimalDigits n = decimalDigits (n div 10000) @
     [digitChar (n div 1000 mod 10), digitChar (n div 100 mod 10),
      digitChar (n div 10 mod 10), digitChar (n mod 10)]"
proof -
  have 1: "decimalDigits n = decimalDigits (n div 10) @ [digitChar (n mod 10)]"
    using assms by (intro decimalDigits_step) simp
  have 2: "decimalDigits (n div 10) = decimalDigits (n div 10 div 10) @ [digitChar (n div 10 mod 10)]"
    using assms by (intro decimalDigits_step) simp
  have 3: "decimalDigits (n div 10 div 10) =
      decimalDigits (n div 10 div 10 div 10) @ [digitChar (n div 10 div 10 mod 10)]"
    using assms by (intro decimalDigits_step) simp
  have 4: "decimalDigits (n div 10 div 10 div 10) =
      decimalDigits (n div 10 div 10 div 10 div 10) @ [digitChar (n div 10 div 10 div 10 mod 10)]"
    using assms by (intro decimalDigits_step) simp
  show ?thesis
    unfolding 1 2 3 4 by (simp add: div_mult2_eq [symmetric])
qed

lemma replicate_upto4:
  "replicate 4 c = [c, c, c, c]" "replicate 3 c = [c, c, c]" "replicate 2 c = [c, c]"
  "replicate (Suc 0) c = [c]"
  by (simp_all add: numeral_eq_Suc)

lemma decimalDigits_padded:
  assumes "n < 10000"
  shows "length (decimalDigits n) \<le> 4
    \<and> replicate (5 - length (decimalDigits n)) (CHR ''0'') @ decimalDigits n =
       [CHR ''0'', digitChar (n div 1000 mod 10), digitChar (n div 100 mod 10),
        digitChar (n div 10 mod 10), digitChar (n mod 10)]"
proof -
  consider "n < 10" | "10 \<le> n" "n < 100" | "100 \<le> n" "n < 1000" | "1000 \<le> n" "n < 10000"
    using assms by linarith
  then show ?thesis
  proof cases
    case 1
    then show ?thesis
      by (simp add: decimalDigits_small digitChar_0 replicate_upto4)
  next
    case 2
    then have a: "n div 10 < 10" by simp
    from 2 a show ?thesis
      by (simp add: decimalDigits_step decimalDigits_small digitChar_0 replicate_upto4)
  next
    case 3
    then have a: "10 \<le> n div 10" "n div 10 div 10 < 10" by simp_all
    from 3 have b: "10 \<le> n" by simp
    from 3 have c: "n div 1000 = 0" "n div 100 = n div 10 div 10" "n div 100 < 10"
      by (simp_all add: div_mult2_eq [symmetric])
    show ?thesis
      using a b c
      by (simp add: decimalDigits_step [of n] decimalDigits_step [of "n div 10"]
          decimalDigits_small [of "n div 10 div 10"] digitChar_0 replicate_upto4)
  next
    case 4
    then have a: "10 \<le> n div 10" "10 \<le> n div 10 div 10" "n div 10 div 10 div 10 < 10"
      by simp_all
    from 4 have b: "10 \<le> n" by simp
    from 4 have c: "n div 1000 = n div 10 div 10 div 10" "n div 100 = n div 10 div 10"
      "n div 1000 < 10"
      by (simp_all add: div_mult2_eq [symmetric])
    show ?thesis
      using a b c
      by (simp add: decimalDigits_step [of n] decimalDigits_step [of "n div 10"]
          decimalDigits_step [of "n div 10 div 10"]
          decimalDigits_small [of "n div 10 div 10 div 10"] digitChar_0 replicate_upto4)
  qed
qed


lemma toFixed_four:
  assumes "0 \<le> x" and "x < 10 ^ 21"
  shows "toFixed x 4 = Some (fourDecimals x)"
proof -
  let ?n = "tenThousandths x"
  let ?m = "if ?n = 0 then ''0'' else decimalDigits ?n"
  let ?tail = "[digitChar (?n div 1000 mod 10), digitChar (?n div 100 mod 10),
                digitChar (?n div 10 mod 10), digitChar (?n mod 10)]"
  have m: "?m = decimalDigits ?n"
    by (simp add: decimalDigits_small digitChar_0)
  have split: "(let m' = (if length ?m \<le> 4 then replicate (4 + 1 - length ?m) (CHR ''0'') @ ?m else ?m);
                    k = length m'
                in take (k - 4) m' @ ''.'' @ drop (k - 4) m') =
               decimalDigits (?n div 10000) @ ''.'' @ ?tail"
  proof (cases "?n < 10000")
    case True
    from decimalDigits_padded [OF True] True show ?thesis
      unfolding m by (simp add: Let_def decimalDigits_small digitChar_0)
  next
    case False
    then have big: "10000 \<le> ?n" by simp
    have d: "decimalDigits ?n = decimalDigits (?n div 10000) @ ?tail"
      using big by (rule decimalDigits_last4)
    have l: "length (decimalDigits ?n) = length (decimalDigits (?n div 10000)) + 4"
      by (subst d) simp
    have "\<not> length (decimalDigits ?n) \<le> 4"
      using l length_decimalDigits_pos [of "?n div 10000"] by simp
    moreover have "take (length (decimalDigits ?n) - 4) (decimalDigits ?n) = decimalDigits (?n div 10000)"
      unfolding l by (subst d) simp
    moreover have "drop (length (decimalDigits ?n) - 4) (decimalDigits ?n) = ?tail"
      unfolding l by (subst d) simp
    ultimately show ?thesis
      unfolding m by (simp add: Let_def)
  qed
  have "toFixed x 4 =
      Some ((let m' = (if length ?m \<le> 4 then replicate (4 + 1 - length ?m) (CHR ''0'') @ ?m else ?m);
                 k = length m'
             in take (k - 4) m' @ ''.'' @ drop (k - 4) m'))"
    using assms by (simp add: toFixed_def tenThousandths_def Let_def)
  also have "\<dots> = Some (fourDecimals x)"
    unfolding split by (simp add: fourDecimals_def Let_def)
  finally show ?thesis .
qed

lemma tenThousandths_near:
  assumes "0 \<le> x"
  shows "\<bar>real (tenThousandths x) / 10000 - x\<bar> \<le> 1 / 20000"
proof -
  let ?y = "x * 10000 + 1 / 2"
  have nn: "0 \<le> \<lfloor>?y\<rfloor>" using assms by simp
  then have r: "real (tenThousandths x) = of_int \<lfloor>?y\<rfloor>"
    by (simp add: tenThousandths_def)
  define z where "z = real_of_int \<lfloor>?y\<rfloor>"
  have "z \<le> ?y" and "?y < z + 1"
    unfolding z_def by linarith+
  then have "z / 10000 - x \<le> 1 / 20000" and "- (1 / 20000) \<le> z / 10000 - x"
    by linarith+
  then have "\<bar>z / 10000 - x\<bar> \<le> 1 / 20000"
    by (intro abs_leI) linarith+
  then show ?thesis
    unfolding r z_def .
qed

text \<open>
  C8. For numbers below \<open>10^21\<close> in absolute value the coordinate line is the absolute
  latitude to four decimals, the degree sign, a space and \<open>N\<close> for a latitude that is not
  negative and \<open>S\<close> otherwise, then \<open>' / '\<close>, then the absolute longitude to four
  decimals, the degree sign, a space and \<open>E\<close> for a longitude that is not negative and
  \<open>W\<close> otherwise. A number to four decimals is the nearest count of ten-thousandths
  (a half goes up), written as its integer part, a point and four digits.
\<close>

theorem coordinate_text:
  assumes "\<bar>lat\<bar> < 10 ^ 21" and "\<bar>lon\<bar> < 10 ^ 21"
  shows "coordsText lat lon =
      Some (fourDecimals \<bar>lat\<bar> @ [CHR 0xB0] @ '' '' @ (if 0 \<le> lat then ''N'' else ''S'')
            @ '' / '' @
            fourDecimals \<bar>lon\<bar> @ [CHR 0xB0] @ '' '' @ (if 0 \<le> lon then ''E'' else ''W''))
    \<and> \<bar>real (tenThousandths \<bar>lat\<bar>) / 10000 - \<bar>lat\<bar>\<bar> \<le> 1 / 20000
    \<and> \<bar>real (tenThousandths \<bar>lon\<bar>) / 10000 - \<bar>lon\<bar>\<bar> \<le> 1 / 20000"
proof -
  have a: "toFixed \<bar>lat\<bar> 4 = Some (fourDecimals \<bar>lat\<bar>)"
    using assms(1) by (intro toFixed_four) simp_all
  have b: "toFixed \<bar>lon\<bar> 4 = Some (fourDecimals \<bar>lon\<bar>)"
    using assms(2) by (intro toFixed_four) simp_all
  have "coordsText lat lon =
      Some (fourDecimals \<bar>lat\<bar> @ [CHR 0xB0] @ '' '' @ (if 0 \<le> lat then ''N'' else ''S'')
            @ '' / '' @
            fourDecimals \<bar>lon\<bar> @ [CHR 0xB0] @ '' '' @ (if 0 \<le> lon then ''E'' else ''W''))"
    by (simp add: coordsText_def a b Let_def)
  moreover have "\<bar>real (tenThousandths \<bar>lat\<bar>) / 10000 - \<bar>lat\<bar>\<bar> \<le> 1 / 20000"
    by (rule tenThousandths_near) simp
  moreover have "\<bar>real (tenThousandths \<bar>lon\<bar>) / 10000 - \<bar>lon\<bar>\<bar> \<le> 1 / 20000"
    by (rule tenThousandths_near) simp
  ultimately show ?thesis by (intro conjI)
qed

lemma digitChar_values:
  "digitChar 0 = CHR ''0''" "digitChar 1 = CHR ''1''" "digitChar 2 = CHR ''2''"
  "digitChar 3 = CHR ''3''" "digitChar 4 = CHR ''4''" "digitChar 5 = CHR ''5''"
  "digitChar 6 = CHR ''6''" "digitChar 7 = CHR ''7''" "digitChar 8 = CHR ''8''"
  "digitChar 9 = CHR ''9''" "digitChar (Suc 0) = CHR ''1''"
  by code_simp+

theorem coordinate_text_witness:
  "\<bar>5252 / 100 :: real\<bar> < 10 ^ 21 \<and> \<bar>- 13405 / 1000 :: real\<bar> < 10 ^ 21
   \<and> coordsText (5252 / 100) (- 13405 / 1000) =
       Some (''52.5200'' @ [CHR 0xB0] @ '' N / 13.4050'' @ [CHR 0xB0] @ '' W'')"
proof -
  have h1: "\<bar>5252 / 100 :: real\<bar> < 10 ^ 21" and h2: "\<bar>- 13405 / 1000 :: real\<bar> < 10 ^ 21"
    by simp_all
  have t1: "tenThousandths \<bar>5252 / 100\<bar> = 525200"
    and t2: "tenThousandths \<bar>- 13405 / 1000\<bar> = 134050"
    by (simp_all add: tenThousandths_def)
  have d1: "decimalDigits (525200 div 10000) @ ''.'' @
         [digitChar (525200 div 1000 mod 10), digitChar (525200 div 100 mod 10),
          digitChar (525200 div 10 mod 10), digitChar (525200 mod 10)] = ''52.5200''"
    by (simp add: decimalDigits.simps [of 52] decimalDigits_small digitChar_values)
  have d2: "decimalDigits (134050 div 10000) @ ''.'' @
         [digitChar (134050 div 1000 mod 10), digitChar (134050 div 100 mod 10),
          digitChar (134050 div 10 mod 10), digitChar (134050 mod 10)] = ''13.4050''"
    by (simp add: decimalDigits.simps [of 13] decimalDigits_small digitChar_values)
  have f1: "fourDecimals \<bar>5252 / 100\<bar> = ''52.5200''"
    unfolding fourDecimals_def t1 Let_def by (rule d1)
  have f2: "fourDecimals \<bar>- 13405 / 1000\<bar> = ''13.4050''"
    unfolding fourDecimals_def t2 Let_def by (rule d2)
  from coordinate_text [OF h1 h2]
  have "coordsText (5252 / 100) (- 13405 / 1000) =
       Some (''52.5200'' @ [CHR 0xB0] @ '' N / 13.4050'' @ [CHR 0xB0] @ '' W'')"
    unfolding f1 f2 by simp
  with h1 h2 show ?thesis by (intro conjI)
qed

subsection \<open>The projection of the center\<close>

















end
